theory Spec2Isabelle
  imports Complex_Main "HOL-Library.Multiset" "HOL-Library.Monad_Syntax"
begin

section \<open>Python values and library functions used by the scripts\<close>

text \<open>
  Exceptions are values.  \<open>ValueError\<close> is the one exception \<open>run.py\<close> raises itself;
  \<open>SystemExit\<close> is how \<open>argparse\<close> ends the process on a bad command line;
  \<open>KeyError\<close> and \<open>IndexError\<close> come from subscripting;
  \<open>OSError\<close> stands for the failures of the file-system calls;
  \<open>InvalidProportionError\<close> is the error the specification names for the splitter;
  \<open>Raised\<close> is any
  exception coming out of a module that is imported by the scripts (\<open>utils\<close>,
  \<open>video_datasets\<close>, \<open>models\<close>, \<open>train\<close>, \<open>test\<close>, \<open>torch\<close>).
\<close>

datatype error =
    ValueError string
  | KeyError string
  | IndexError
  | SystemExit int
  | OSError string
  | InvalidProportionError
  | Raised string

subsection \<open>Strings and paths\<close>






section \<open>preprocess.py\<close>









section \<open>run.py\<close>

subsection \<open>Integers as text\<close>

text \<open>
  \<open>str(i)\<close> for an integer is its decimal numeral, with a minus sign when negative.
\<close>

definition digit_char :: "nat \<Rightarrow> char" where
  "digit_char d = char_of (48 + d)"

definition is_digit :: "char \<Rightarrow> bool" where
  "is_digit c = (48 \<le> (of_char c :: nat) \<and> (of_char c :: nat) \<le> 57)"

definition digit_val :: "char \<Rightarrow> nat" where
  "digit_val c = of_char c - 48"

function digits_of :: "nat \<Rightarrow> string" where
  "digits_of n =
     (if n < 10 then [digit_char n]
      else digits_of (n div 10) @ [digit_char (n mod 10)])"
  by pat_completeness auto
termination
  by (relation "measure id") auto

declare digits_of.simps [simp del]

definition py_str :: "int \<Rightarrow> string" where
  "py_str i = (if i < 0 then CHR ''-'' # digits_of (nat (- i)) else digits_of (nat i))"

text \<open>
  \<open>int(s)\<close> for a string of ASCII characters: surrounding white space is dropped, one
  sign is allowed, and the rest must be decimal digits, where a single underscore may
  stand between two digits; \<open>None\<close> is Python's \<open>ValueError\<close>.
\<close>

definition is_space :: "char \<Rightarrow> bool" where
  "is_space c = ((of_char c :: nat) \<in> {9, 10, 11, 12, 13, 28, 29, 30, 31, 32})"

definition py_strip :: "string \<Rightarrow> string" where
  "py_strip s = rev (dropWhile is_space (rev (dropWhile is_space s)))"

definition digits_val :: "string \<Rightarrow> nat" where
  "digits_val ds = foldl (\<lambda>acc c. 10 * acc + digit_val c) 0 ds"

text \<open>
  The digits of what follows a digit: digits, each possibly after one underscore.
\<close>

fun digit_tail :: "string \<Rightarrow> string option" where
  "digit_tail [] = Some []"
| "digit_tail [c] = (if is_digit c then Some [c] else None)"
| "digit_tail (c # d # r) =
     (if is_digit c then map_option (\<lambda>ds. c # ds) (digit_tail (d # r))
      else if c = CHR ''_'' \<and> is_digit d then map_option (\<lambda>ds. d # ds) (digit_tail r)
      else None)"

definition unsigned_int :: "string \<Rightarrow> nat option" where
  "unsigned_int s =
     (case s of
        [] \<Rightarrow> None
      | c # r \<Rightarrow>
          if is_digit c then map_option (\<lambda>ds. digits_val (c # ds)) (digit_tail r)
          else None)"

definition py_int :: "string \<Rightarrow> int option" where
  "py_int s =
     (case py_strip s of
        [] \<Rightarrow> None
      | c # r \<Rightarrow>
          if c = CHR ''-'' then map_option (\<lambda>n. - int n) (unsigned_int r)
          else if c = CHR ''+'' then map_option int (unsigned_int r)
          else map_option int (unsigned_int (c # r)))"

subsection \<open>The command line\<close>

text \<open>
  The \<open>argparse.Namespace\<close> that \<open>args_parser\<close> returns.  Floats are carried as the
  real numbers they stand for: \<open>main\<close> passes them on and never computes with them.
  \<open>frame_dir\<close> and \<open>ckpt\<close> have no default, so they are \<open>None\<close> unless given;
  \<open>pretrained\<close> has the default \<open>True\<close> and no \<open>type\<close>, so a given value stays a
  string.
\<close>

datatype pyval = PyBool bool | PyStr string

record args =
  frame_dir :: "string option"
  train_size :: real
  test_size :: real
  fr_per_vid :: int
  n_classes :: int
  ckpt :: "string option"
  model_type :: string
  cnn_backbone :: string
  pretrained :: pyval
  rnn_hidden_size :: int
  rnn_n_layers :: int
  mode :: string
  batch_size :: int
  dropout :: real
  learning_rate :: real
  n_epochs :: int

text \<open>
  The attributes that are set from options declared with \<open>type=int\<close> and with
  \<open>type=float\<close>, lines 69 to 85.
\<close>

definition int_dests :: "string list" where
  "int_dests = [''fr_per_vid'', ''n_classes'', ''rnn_hidden_size'', ''rnn_n_layers'',
                ''batch_size'', ''n_epochs'']"

definition float_dests :: "string list" where
  "float_dests = [''train_size'', ''test_size'', ''dropout'', ''learning_rate'']"

text \<open>The options declared with \<open>required=True\<close>, lines 72, 81 and 82.\<close>

definition required_dests :: "string list" where
  "required_dests = [''n_classes'', ''mode'', ''batch_size'']"

text \<open>
  \<open>float(s)\<close> is not modelled: the conversion of a string to a float is the parameter
  \<open>to_float\<close>, \<open>None\<close> where \<open>float\<close> raises.
\<close>

definition value_ok :: "(string \<Rightarrow> real option) \<Rightarrow> string \<Rightarrow> string \<Rightarrow> bool" where
  "value_ok to_float dest v =
     (if dest \<in> set int_dests then py_int v \<noteq> None
      else if dest \<in> set float_dests then to_float v \<noteq> None
      else True)"

text \<open>
  How \<open>argparse\<close> recognises options in the words of a command line (the two option
  strings of each \<open>add_argument\<close> call, their abbreviations, values attached with
  \<open>=\<close> or written after the option) is the library's business and is not modelled.
  A command line is given as what \<open>argparse\<close> finds in it, from left to right: an
  option of the parser with its value, as the attribute it sets and the string to
  convert; a request for help; something that is a usage error on the spot (an option
  without its value, an ambiguous abbreviation); or a word it does not recognise, which
  it reports only after everything else was read.
\<close>

datatype cl_item = Given string string | Help | Usage_error | Unrecognised

text \<open>
  \<open>parser.parse_args()\<close>, reading: each value is converted when it is met (a value
  that does not convert is a usage error, exit status 2), help exits with status 0, and
  a later occurrence of an option replaces an earlier one.  The result lists, latest
  first, the attribute and the raw value of every option given.
\<close>

fun read_items ::
  "(string \<Rightarrow> real option) \<Rightarrow> cl_item list \<Rightarrow> (string \<times> string) list
     \<Rightarrow> error + (string \<times> string) list" where
  "read_items to_float [] given = Inr given"
| "read_items to_float (Given dest v # rest) given =
     (if value_ok to_float dest v then read_items to_float rest ((dest, v) # given)
      else Inl (SystemExit 2))"
| "read_items to_float (Help # rest) given = Inl (SystemExit 0)"
| "read_items to_float (Usage_error # rest) given = Inl (SystemExit 2)"
| "read_items to_float (Unrecognised # rest) given = read_items to_float rest given"

definition given_str :: "(string \<times> string) list \<Rightarrow> string \<Rightarrow> string option" where
  "given_str given dest = map_of given dest"

definition given_int :: "(string \<times> string) list \<Rightarrow> string \<Rightarrow> int \<Rightarrow> int" where
  "given_int given dest dflt =
     (case map_of given dest of
        None \<Rightarrow> dflt
      | Some v \<Rightarrow> (case py_int v of None \<Rightarrow> dflt | Some i \<Rightarrow> i))"

definition given_float ::
  "(string \<Rightarrow> real option) \<Rightarrow> (string \<times> string) list \<Rightarrow> string \<Rightarrow> real \<Rightarrow> real" where
  "given_float to_float given dest dflt =
     (case map_of given dest of
        None \<Rightarrow> dflt
      | Some v \<Rightarrow> (case to_float v of None \<Rightarrow> dflt | Some x \<Rightarrow> x))"

text \<open>
  \<open>args_parser()\<close>, on the command line \<open>items\<close>.  After the options are read, a
  required option that was not given ends the process with the usage error, and so
  does, after that, a word that was not recognised; the defaults are those of lines 68
  to 85.
\<close>

definition args_parser :: "(string \<Rightarrow> real option) \<Rightarrow> cl_item list \<Rightarrow> error + args" where
  "args_parser to_float items =
     (case read_items to_float items [] of
        Inl e \<Rightarrow> Inl e
      | Inr given \<Rightarrow>
          if \<exists>dest \<in> set required_dests. map_of given dest = None
          then Inl (SystemExit 2)
          else if Unrecognised \<in> set items
          then Inl (SystemExit 2)
          else Inr
            \<lparr> frame_dir = given_str given ''frame_dir'',
              train_size = given_float to_float given ''train_size'' (7 / 10),
              test_size = given_float to_float given ''test_size'' (1 / 10),
              fr_per_vid = given_int given ''fr_per_vid'' 16,
              n_classes = given_int given ''n_classes'' 0,
              ckpt = given_str given ''ckpt'',
              model_type = (case given_str given ''model_type'' of
                              None \<Rightarrow> ''lrcn'' | Some v \<Rightarrow> v),
              cnn_backbone = (case given_str given ''cnn_backbone'' of
                                None \<Rightarrow> ''resnet34'' | Some v \<Rightarrow> v),
              pretrained = (case given_str given ''pretrained'' of
                              None \<Rightarrow> PyBool True | Some v \<Rightarrow> PyStr v),
              rnn_hidden_size = given_int given ''rnn_hidden_size'' 100,
              rnn_n_layers = given_int given ''rnn_n_layers'' 1,
              mode = (case given_str given ''mode'' of
                        None \<Rightarrow> ''train'' | Some v \<Rightarrow> v),
              batch_size = given_int given ''batch_size'' 0,
              dropout = given_float to_float given ''dropout'' (1 / 10),
              learning_rate = given_float to_float given ''learning_rate'' (3 / 100000),
              n_epochs = given_int given ''n_epochs'' 30 \<rparr>)"

subsection \<open>The objects \<open>main\<close> builds and hands on\<close>

text \<open>
  The modules \<open>utils\<close>, \<open>video_datasets\<close>, \<open>models\<close>, \<open>train\<close> and \<open>test\<close> and
  the \<open>torch\<close> library are outside \<open>run.py\<close>.  An object that \<open>main\<close> only passes
  from one of their functions to another is written as the call that made it, with its
  arguments in the order of the source.
\<close>

type_synonym sample = "string \<times> int"

datatype device = Cuda0 | Cpu

datatype stats = TransformStats string

datatype transforms = TrTransforms stats | ValTsTransforms stats

text \<open>
  \<open>LRCN(hidden_size, n_layers, dropout_rate, n_classes, pretrained, cnn_model)\<close>,
  lines 140 and 141.
\<close>

datatype model = LRCN int int real int pyval string

datatype dataset = VideoDataset "sample list" int transforms

datatype dataloaders =
    TrainValDloaders dataset dataset int string
  | TestDloaders dataset int string

datatype reduction = ReductionSum | ReductionMean | ReductionNone

datatype loss_func = CrossEntropyLoss reduction

datatype optimizer = Adam model real

text \<open>\<open>ReduceLROnPlateau(opt, mode, factor, patience, verbose)\<close>.\<close>

datatype scheduler = ReduceLROnPlateau optimizer string real int int

datatype test_report = TestReport "int list" "int list" "string list"

datatype confusion_matrix =
  ConfusionMatrix "int list" "int list" "string \<rightharpoonup> nat" "string list"

text \<open>
  \<open>np.array(split)\<close> on a list of \<open>(path, label)\<close> tuples is a two-column array of
  strings: numpy has no common type for a string and an integer but text, so each label
  is stored as its decimal numeral (which is why line 174 applies \<open>int\<close> to it).  The
  dictionary saved to \<open>splits.npy\<close> is a list of keys with their arrays, in insertion
  order.
\<close>

type_synonym np_array = "string list list"

type_synonym splits = "(string \<times> np_array) list"

definition np_array :: "sample list \<Rightarrow> np_array" where
  "np_array split = map (\<lambda>(path, label). [path, py_str label]) split"

subsection \<open>Calls, the environment and the state\<close>

text \<open>Everything \<open>main\<close> does outside itself, in the order it does it.\<close>

datatype action =
    Call_transform_stats string
  | Call_compose_data_transforms stats
  | Call_LRCN model
  | Call_load_dataset "string option"
  | Call_dataset_split "sample list" real real
  | Call_np_save string splits
  | Call_VideoDataset dataset
  | Call_train_val_dloaders dataloaders
  | Call_CrossEntropyLoss loss_func
  | Call_Adam optimizer
  | Call_ReduceLROnPlateau scheduler
  | Call_makedirs string bool
  | Call_to model device
  | Call_train dataloaders model loss_func optimizer scheduler device string int
  | Call_np_load string
  | Call_test_dloaders dataloaders
  | Call_torch_load "string option"
  | Call_load_state_dict model "string option"
  | Call_test model dataloaders device
  | Call_listdir string
  | Print_accuracy real
  | Call_get_test_report test_report
  | Print_line string
  | PPrint_report test_report
  | Call_get_confusion_matrix confusion_matrix
  | PPrint_confusion_matrix confusion_matrix

text \<open>
  The environment of a run: whether CUDA is there, which calls raise (and what), and
  what the calls whose results \<open>main\<close> looks into return: \<open>load_dataset\<close> (the sample
  list and the label dictionary), \<open>dataset_split\<close> (the three lists), \<open>test\<close> (targets,
  outputs, accuracy) and \<open>os.listdir\<close>.
\<close>

record env =
  cuda_is_available :: bool
  raises :: "action \<Rightarrow> error option"
  load_dataset_returns :: "string option \<Rightarrow> sample list \<times> (string \<rightharpoonup> nat)"
  dataset_split_returns ::
    "sample list \<Rightarrow> real \<Rightarrow> real \<Rightarrow> sample list \<times> sample list \<times> sample list"
  test_returns :: "model \<Rightarrow> dataloaders \<Rightarrow> device \<Rightarrow> int list \<times> int list \<times> real"
  listdir_returns :: "string \<Rightarrow> string list"

text \<open>
  The state of a run: what was done so far, and the \<open>.npy\<close> files on disk, by path.
\<close>

record state =
  actions :: "action list"
  npy_files :: "string \<rightharpoonup> splits"

type_synonym 'a prog = "state \<Rightarrow> (error + 'a) \<times> state"

definition ret :: "'a \<Rightarrow> 'a prog" where
  "ret x s = (Inr x, s)"

definition raise :: "error \<Rightarrow> 'a prog" where
  "raise e s = (Inl e, s)"

definition seq :: "'a prog \<Rightarrow> ('a \<Rightarrow> 'b prog) \<Rightarrow> 'b prog" where
  "seq m f s = (case m s of (Inl e, s') \<Rightarrow> (Inl e, s') | (Inr x, s') \<Rightarrow> f x s')"

text \<open>\<open>print\<close> and \<open>pprint\<close>: done, never failing.\<close>

definition act :: "action \<Rightarrow> unit prog" where
  "act a s = (Inr (), s\<lparr>actions := actions s @ [a]\<rparr>)"

text \<open>A call into another module: it is made, and it returns or raises.\<close>

definition call :: "env \<Rightarrow> action \<Rightarrow> unit prog" where
  "call E a s =
     ((case raises E a of Some e \<Rightarrow> Inl e | None \<Rightarrow> Inr ()),
      s\<lparr>actions := actions s @ [a]\<rparr>)"

text \<open>\<open>np.save(path, splits)\<close>: when it returns, the file holds \<open>splits\<close>.\<close>

definition np_save :: "env \<Rightarrow> string \<Rightarrow> splits \<Rightarrow> unit prog" where
  "np_save E path v =
     seq (call E (Call_np_save path v))
       (\<lambda>_ s. (Inr (), s\<lparr>npy_files := (npy_files s)(path \<mapsto> v)\<rparr>))"

text \<open>\<open>np.load(path, allow_pickle=True)\<close>: a file that is not there is an error.\<close>

definition np_load :: "env \<Rightarrow> string \<Rightarrow> splits prog" where
  "np_load E path =
     seq (call E (Call_np_load path))
       (\<lambda>_ s. (case npy_files s path of
                  None \<Rightarrow> (Inl (OSError path), s)
                | Some v \<Rightarrow> (Inr v, s)))"

subsection \<open>Reading the test split back, lines 173 and 174\<close>

text \<open>\<open>(sample[0], int(sample[1]))\<close> for one row of the array.\<close>

definition sample_of_row :: "string list \<Rightarrow> error + sample" where
  "sample_of_row row =
     (case row of
        [] \<Rightarrow> Inl IndexError
      | [p] \<Rightarrow> Inl IndexError
      | p # l # _ \<Rightarrow> (case py_int l of None \<Rightarrow> Inl (ValueError l) | Some i \<Rightarrow> Inr (p, i)))"

fun samples_of_rows :: "np_array \<Rightarrow> error + sample list" where
  "samples_of_rows [] = Inr []"
| "samples_of_rows (row # rows) =
     (case sample_of_row row of
        Inl e \<Rightarrow> Inl e
      | Inr x \<Rightarrow> (case samples_of_rows rows of Inl e \<Rightarrow> Inl e | Inr xs \<Rightarrow> Inr (x # xs)))"

definition test_split_of :: "splits \<Rightarrow> error + sample list" where
  "test_split_of file =
     (case map_of file ''test'' of
        None \<Rightarrow> Inl (KeyError ''test'')
      | Some rows \<Rightarrow> samples_of_rows rows)"

definition lift :: "error + 'a \<Rightarrow> 'a prog" where
  "lift r s = (r, s)"

subsection \<open>The label dictionary of the evaluation, line 186\<close>

text \<open>
  \<open>{x : i for i, x in enumerate(all_cats)}\<close>: the entries are stored in order, a later
  one replacing an earlier one with the same key.
\<close>

definition labels_dict_of :: "string list \<Rightarrow> (string \<rightharpoonup> nat)" where
  "labels_dict_of all_cats =
     foldl (\<lambda>d (i, x). d(x \<mapsto> i)) Map.empty (enumerate 0 all_cats)"

subsection \<open>\<open>main\<close>\<close>

text \<open>The branch \<open>mode == 'train'\<close>, lines 144 to 168.\<close>

definition main_train ::
  "env \<Rightarrow> args \<Rightarrow> transforms \<Rightarrow> transforms \<Rightarrow> model \<Rightarrow> device \<Rightarrow> unit prog" where
  "main_train E a tr_transforms val_ts_transforms mdl dev =
     seq (call E (Call_load_dataset (frame_dir a))) (\<lambda>_.
     case load_dataset_returns E (frame_dir a) of (vid_dataset, label_dict) \<Rightarrow>
     seq (call E (Call_dataset_split vid_dataset (train_size a) (test_size a))) (\<lambda>_.
     case dataset_split_returns E vid_dataset (train_size a) (test_size a) of
       (tr_split, val_split, ts_split) \<Rightarrow>
     seq (np_save E ''./splits.npy''
            [(''train'', np_array tr_split),
             (''val'', np_array val_split),
             (''test'', np_array ts_split)]) (\<lambda>_.
     let tr_dataset = VideoDataset tr_split (fr_per_vid a) tr_transforms in
     seq (call E (Call_VideoDataset tr_dataset)) (\<lambda>_.
     let val_dataset = VideoDataset val_split (fr_per_vid a) val_ts_transforms in
     seq (call E (Call_VideoDataset val_dataset)) (\<lambda>_.
     let dls = TrainValDloaders tr_dataset val_dataset (batch_size a) (model_type a) in
     seq (call E (Call_train_val_dloaders dls)) (\<lambda>_.
     let loss = CrossEntropyLoss ReductionSum in
     seq (call E (Call_CrossEntropyLoss loss)) (\<lambda>_.
     let opt = Adam mdl (learning_rate a) in
     seq (call E (Call_Adam opt)) (\<lambda>_.
     let lr_scheduler = ReduceLROnPlateau opt ''min'' (1 / 2) 5 1 in
     seq (call E (Call_ReduceLROnPlateau lr_scheduler)) (\<lambda>_.
     seq (call E (Call_makedirs ''./models'' True)) (\<lambda>_.
     seq (call E (Call_to mdl dev)) (\<lambda>_.
     call E (Call_train dls mdl loss opt lr_scheduler dev ''./models''
               (n_epochs a)))))))))))))"

text \<open>The branch \<open>mode == 'eval'\<close>, lines 171 to 201.\<close>

definition main_eval ::
  "env \<Rightarrow> args \<Rightarrow> transforms \<Rightarrow> model \<Rightarrow> device \<Rightarrow> unit prog" where
  "main_eval E a val_ts_transforms mdl dev =
     seq (np_load E ''./splits.npy'') (\<lambda>file.
     seq (lift (test_split_of file)) (\<lambda>ts_split.
     let ts_dataset = VideoDataset ts_split (fr_per_vid a) val_ts_transforms in
     seq (call E (Call_VideoDataset ts_dataset)) (\<lambda>_.
     let dls = TestDloaders ts_dataset (batch_size a) (model_type a) in
     seq (call E (Call_test_dloaders dls)) (\<lambda>_.
     seq (call E (Call_torch_load (ckpt a))) (\<lambda>_.
     seq (call E (Call_load_state_dict mdl (ckpt a))) (\<lambda>_.
     seq (call E (Call_to mdl dev)) (\<lambda>_.
     seq (call E (Call_test mdl dls dev)) (\<lambda>_.
     case test_returns E mdl dls dev of (targets, outputs, accuracy) \<Rightarrow>
     seq (call E (Call_listdir ''UCF50'')) (\<lambda>_.
     let all_cats = listdir_returns E ''UCF50'';
         labels_dict = labels_dict_of all_cats in
     seq (act (Print_accuracy accuracy)) (\<lambda>_.
     let report = TestReport targets outputs all_cats in
     seq (call E (Call_get_test_report report)) (\<lambda>_.
     seq (act (Print_line (CHR 0x0A # ''Classification Report:''))) (\<lambda>_.
     seq (act (PPrint_report report)) (\<lambda>_.
     let cm = ConfusionMatrix targets outputs labels_dict all_cats in
     seq (call E (Call_get_confusion_matrix cm)) (\<lambda>_.
     seq (act (Print_line (CHR 0x0A # ''Confusion Matrix:''))) (\<lambda>_.
     act (PPrint_confusion_matrix cm))))))))))))))))"

text \<open>
  The message of line 204; \<open>CHR 0x22\<close> is the double quote around \<open>train\<close> and
  \<open>eval\<close>.
\<close>

definition mode_message :: string where
  "mode_message =
     ''The mode argument must be either '' @ [CHR 0x22] @ ''train'' @ [CHR 0x22] @
     '' or '' @ [CHR 0x22] @ ''eval'' @ [CHR 0x22] @ ''.''"

text \<open>\<open>main(args)\<close>, lines 112 to 204.\<close>

definition main :: "env \<Rightarrow> args \<Rightarrow> unit prog" where
  "main E a =
     (let dev = (if cuda_is_available E then Cuda0 else Cpu);
          st = TransformStats (model_type a) in
      seq (call E (Call_transform_stats (model_type a))) (\<lambda>_.
      seq (call E (Call_compose_data_transforms st)) (\<lambda>_.
      let tr_transforms = TrTransforms st;
          val_ts_transforms = ValTsTransforms st;
          mdl = LRCN (rnn_hidden_size a) (rnn_n_layers a) (dropout a) (n_classes a)
                  (pretrained a) (cnn_backbone a) in
      seq (call E (Call_LRCN mdl)) (\<lambda>_.
      if mode a = ''train'' then main_train E a tr_transforms val_ts_transforms mdl dev
      else if mode a = ''eval'' then main_eval E a val_ts_transforms mdl dev
      else raise (ValueError mode_message)))))"

text \<open>A run starts with nothing done and the files \<open>files\<close> on disk.\<close>

definition start :: "(string \<rightharpoonup> splits) \<Rightarrow> state" where
  "start files = \<lparr>actions = [], npy_files = files\<rparr>"

text \<open>The script, lines 206 to 208: parse the command line, then run \<open>main\<close>.\<close>

definition script ::
  "env \<Rightarrow> (string \<Rightarrow> real option) \<Rightarrow> cl_item list \<Rightarrow> (string \<rightharpoonup> splits)
     \<Rightarrow> (error + unit) \<times> state" where
  "script E to_float items files =
     (case args_parser to_float items of
        Inl e \<Rightarrow> (Inl e, start files)
      | Inr a \<Rightarrow> main E a (start files))"

section \<open>The modules behind \<open>run.py\<close>, from the specification\<close>

subsection \<open>Dataset Splitter\<close>

text \<open>
  Modelled from the spec: \<open>dataset_split\<close> of \<open>video_datasets\<close>, which is not among the
  sources.  Section 4.2: the sample list is shuffled, then cut into train, test and
  validation by the given proportions, validation being the remainder; the call fails
  with \<open>InvalidProportionError\<close> if a proportion is negative, if the two exceed 1
  together, or if the training split comes out empty.  The specification leaves the
  rounding open; a share of \<open>n\<close> samples is taken as the whole part of the
  proportion times \<open>n\<close>.  The random source of the shuffle is the list \<open>draws\<close>
  (a fixed seed is a fixed list): each draw picks the next sample among those left,
  and when the draws run out the rest stays in order.
\<close>

fun shuffle :: "nat list \<Rightarrow> 'a list \<Rightarrow> 'a list" where
  "shuffle draws [] = []"
| "shuffle [] (x # xs) = x # xs"
| "shuffle (r # draws) (x # xs) =
     (let i = r mod length (x # xs) in
      (x # xs) ! i # shuffle draws (take i (x # xs) @ drop (Suc i) (x # xs)))"

definition dataset_split ::
  "nat list \<Rightarrow> 'a list \<Rightarrow> real \<Rightarrow> real \<Rightarrow> error + ('a list \<times> 'a list \<times> 'a list)" where
  "dataset_split draws S tr_size ts_size =
     (if tr_size < 0 \<or> ts_size < 0 \<or> 1 < tr_size + ts_size
      then Inl InvalidProportionError
      else
        (let n = length S;
             n_train = nat \<lfloor>tr_size * real n\<rfloor>;
             n_test = nat \<lfloor>ts_size * real n\<rfloor>;
             shuffled = shuffle draws S;
             tr_split = take n_train shuffled;
             ts_split = take n_test (drop n_train shuffled);
             val_split = drop (n_train + n_test) shuffled
         in if tr_split = [] then Inl InvalidProportionError
            else Inr (tr_split, val_split, ts_split)))"

subsection \<open>Training Loop\<close>

text \<open>
  Modelled from the spec: \<open>train\<close> of module \<open>train\<close>, which is not among the sources.
  Section 4.5.  The model, the loss, the optimizer and the scheduler are opaque: a
  forward pass gives the logits of a sample under the current parameters \<open>'p\<close>,
  \<open>sample_loss\<close> is the loss of one sample given its logits and its label,
  \<open>opt_step\<close> is backpropagation and the optimizer step on one batch, under the
  scheduler state \<open>'s\<close> (which holds the learning rate), and \<open>sched_step\<close> shows the
  scheduler a validation loss.  Losses are real numbers.
\<close>

record ('p, 'x, 's) learner =
  forward :: "'p \<Rightarrow> 'x \<Rightarrow> real list"
  label_of :: "'x \<Rightarrow> nat"
  sample_loss :: "real list \<Rightarrow> nat \<Rightarrow> real"
  opt_step :: "'s \<Rightarrow> 'p \<Rightarrow> 'x list \<Rightarrow> 'p"
  sched_step :: "'s \<Rightarrow> real \<Rightarrow> 's"

text \<open>
  The predicted class is the argmax over the logits: the index of the first greatest
  entry (\<open>0\<close> for no logits at all).
\<close>

fun argmax_from :: "nat \<Rightarrow> real \<Rightarrow> nat \<Rightarrow> real list \<Rightarrow> nat" where
  "argmax_from best best_v i [] = best"
| "argmax_from best best_v i (v # vs) =
     (if best_v < v then argmax_from i v (Suc i) vs
      else argmax_from best best_v (Suc i) vs)"

definition argmax :: "real list \<Rightarrow> nat" where
  "argmax logits = (case logits of [] \<Rightarrow> 0 | v # vs \<Rightarrow> argmax_from 0 v 1 vs)"

definition predicted :: "('p, 'x, 's) learner \<Rightarrow> 'p \<Rightarrow> 'x \<Rightarrow> nat" where
  "predicted L p x = argmax (forward L p x)"

text \<open>The loss of a batch: summed, not averaged, over its samples.\<close>

definition batch_loss :: "('p, 'x, 's) learner \<Rightarrow> 'p \<Rightarrow> 'x list \<Rightarrow> real" where
  "batch_loss L p batch =
     sum_list (map (\<lambda>x. sample_loss L (forward L p x) (label_of L x)) batch)"

definition batch_corrects :: "('p, 'x, 's) learner \<Rightarrow> 'p \<Rightarrow> 'x list \<Rightarrow> nat" where
  "batch_corrects L p batch = length (filter (\<lambda>x. predicted L p x = label_of L x) batch)"

text \<open>
  train_phase: every training batch once; the running loss and the count of correct
  predictions are accumulated, the parameters are updated after each batch.  The
  reported loss is the running loss divided by the size of the dataset.
\<close>

fun train_batches ::
  "('p, 'x, 's) learner \<Rightarrow> 's \<Rightarrow> 'x list list \<Rightarrow> 'p \<times> real \<times> nat \<Rightarrow> 'p \<times> real \<times> nat" where
  "train_batches L sch [] acc = acc"
| "train_batches L sch (batch # rest) (p, running_loss, running_corrects) =
     train_batches L sch rest
       (opt_step L sch p batch,
        running_loss + batch_loss L p batch,
        running_corrects + batch_corrects L p batch)"

definition dataset_size :: "'x list list \<Rightarrow> nat" where
  "dataset_size batches = length (concat batches)"

definition train_phase ::
  "('p, 'x, 's) learner \<Rightarrow> 's \<Rightarrow> 'p \<Rightarrow> 'x list list \<Rightarrow> 'p \<times> real \<times> real" where
  "train_phase L sch p batches =
     (case train_batches L sch batches (p, 0, 0) of
        (p', running_loss, running_corrects) \<Rightarrow>
          (p', running_loss / real (dataset_size batches),
           real running_corrects / real (dataset_size batches)))"

text \<open>val_phase: the same forward computation, no parameter update.\<close>

definition val_phase ::
  "('p, 'x, 's) learner \<Rightarrow> 'p \<Rightarrow> 'x list list \<Rightarrow> real \<times> real" where
  "val_phase L p batches =
     (sum_list (map (batch_loss L p) batches) / real (dataset_size batches),
      real (sum_list (map (batch_corrects L p) batches)) / real (dataset_size batches))"

record metrics =
  train_loss :: real
  val_loss :: real
  train_acc :: real
  val_acc :: real

text \<open>
  The state of a training run: the current parameters, the scheduler, the lowest
  validation loss seen so far (none before the first epoch), the checkpoint file
  (absent before the first write) and the Metric History.
\<close>

record ('p, 's) run_state =
  params :: 'p
  sched :: 's
  best_loss :: "real option"
  checkpoint :: "'p option"
  history :: "metrics list"

text \<open>
  One epoch: train_phase, val_phase, checkpoint_decision (the checkpoint is overwritten
  with the current parameters if the validation loss of this epoch is the lowest seen
  so far; the scheduler always sees the validation loss), epoch_end (the four metrics
  are appended to the history).
\<close>

definition epoch ::
  "('p, 'x, 's) learner \<Rightarrow> 'x list list \<Rightarrow> 'x list list \<Rightarrow> ('p, 's) run_state
     \<Rightarrow> ('p, 's) run_state" where
  "epoch L train_dl val_dl st =
     (case train_phase L (sched st) (params st) train_dl of
        (p', tr_loss, tr_acc) \<Rightarrow>
          (case val_phase L p' val_dl of
             (v_loss, v_acc) \<Rightarrow>
               (let lowest = (case best_loss st of None \<Rightarrow> True | Some b \<Rightarrow> v_loss < b)
                in \<lparr> params = p',
                     sched = sched_step L (sched st) v_loss,
                     best_loss = (if lowest then Some v_loss else best_loss st),
                     checkpoint = (if lowest then Some p' else checkpoint st),
                     history = history st @
                       [\<lparr> train_loss = tr_loss, val_loss = v_loss,
                          train_acc = tr_acc, val_acc = v_acc \<rparr>] \<rparr>)))"

fun epochs ::
  "('p, 'x, 's) learner \<Rightarrow> 'x list list \<Rightarrow> 'x list list \<Rightarrow> nat \<Rightarrow> ('p, 's) run_state
     \<Rightarrow> ('p, 's) run_state" where
  "epochs L train_dl val_dl 0 st = st"
| "epochs L train_dl val_dl (Suc k) st = epochs L train_dl val_dl k (epoch L train_dl val_dl st)"

text \<open>
  \<open>train\<close>, for \<open>num_epochs\<close> epochs from the parameters \<open>p\<close> and the scheduler \<open>sch\<close>:
  the result holds the final model (the parameters of the last epoch), the Metric
  History and the checkpoint on disk.
\<close>

definition train ::
  "('p, 'x, 's) learner \<Rightarrow> 'x list list \<Rightarrow> 'x list list \<Rightarrow> 'p \<Rightarrow> 's \<Rightarrow> int
     \<Rightarrow> ('p, 's) run_state" where
  "train L train_dl val_dl p sch num_epochs =
     epochs L train_dl val_dl (nat num_epochs)
       \<lparr> params = p, sched = sch, best_loss = None, checkpoint = None, history = [] \<rparr>"

subsection \<open>Evaluation Engine\<close>

text \<open>
  Modelled from the spec: \<open>test\<close> and \<open>get_confusion_matrix\<close> of module \<open>test\<close>, which
  is not among the sources.  Section 4.6: one pass over the test batches records, per
  sample, the true label and the predicted class; the accuracy is the number of correct
  predictions divided by the number of samples.  The confusion matrix has one row per
  true class and one column per predicted class, each cell a count.
\<close>

definition test ::
  "('p, 'x, 's) learner \<Rightarrow> 'p \<Rightarrow> 'x list list \<Rightarrow> nat list \<times> nat list \<times> real" where
  "test L p batches =
     (let samples = concat batches;
          targets = map (label_of L) samples;
          outputs = map (predicted L p) samples;
          correct = length (filter (\<lambda>(t, out). out = t) (zip targets outputs))
      in (targets, outputs, real correct / real (length samples)))"


subsection \<open>Auxiliary notions for reasoning about runs\<close>

text \<open>
  \<open>blank_action\<close> forgets what an action owes to \<open>model_type\<close>: the argument of
  \<open>transform_stats\<close>, the statistics inside the transforms, and the collation argument
  of the data loaders.  \<open>models_of\<close> lists the models an action is given.
\<close>

fun blank_transforms :: "transforms \<Rightarrow> transforms" where
  "blank_transforms (TrTransforms st) = TrTransforms (TransformStats [])"
| "blank_transforms (ValTsTransforms st) = ValTsTransforms (TransformStats [])"

fun blank_dataset :: "dataset \<Rightarrow> dataset" where
  "blank_dataset (VideoDataset split n tf) = VideoDataset split n (blank_transforms tf)"

fun blank_dataloaders :: "dataloaders \<Rightarrow> dataloaders" where
  "blank_dataloaders (TrainValDloaders tr val bs mt) =
     TrainValDloaders (blank_dataset tr) (blank_dataset val) bs []"
| "blank_dataloaders (TestDloaders ts bs mt) = TestDloaders (blank_dataset ts) bs []"

fun blank_action :: "action \<Rightarrow> action" where
  "blank_action (Call_transform_stats mt) = Call_transform_stats []"
| "blank_action (Call_compose_data_transforms st) =
     Call_compose_data_transforms (TransformStats [])"
| "blank_action (Call_VideoDataset d) = Call_VideoDataset (blank_dataset d)"
| "blank_action (Call_train_val_dloaders dls) = Call_train_val_dloaders (blank_dataloaders dls)"
| "blank_action (Call_test_dloaders dls) = Call_test_dloaders (blank_dataloaders dls)"
| "blank_action (Call_train dls m lf opt sch dev dir n) =
     Call_train (blank_dataloaders dls) m lf opt sch dev dir n"
| "blank_action (Call_test m dls dev) = Call_test m (blank_dataloaders dls) dev"
| "blank_action x = x"

fun models_of :: "action \<Rightarrow> model list" where
  "models_of (Call_LRCN m) = [m]"
| "models_of (Call_Adam (Adam m lr)) = [m]"
| "models_of (Call_ReduceLROnPlateau (ReduceLROnPlateau (Adam m lr) md f p v)) = [m]"
| "models_of (Call_to m dev) = [m]"
| "models_of (Call_train dls m lf (Adam m' lr) (ReduceLROnPlateau (Adam m'' lr') md f p v) dev dir n) =
     [m, m', m'']"
| "models_of (Call_load_state_dict m ck) = [m]"
| "models_of (Call_test m dls dev) = [m]"
| "models_of x = []"


text \<open>
  The files on disk after a run are those before it, overwritten by every
  \<open>np.save\<close> of the run that returned.
\<close>

fun saved :: "env \<Rightarrow> (string \<rightharpoonup> splits) \<Rightarrow> action list \<Rightarrow> (string \<rightharpoonup> splits)" where
  "saved E files [] = files"
| "saved E files (Call_np_save path v # rest) =
     saved E (if raises E (Call_np_save path v) = None then files(path \<mapsto> v) else files) rest"
| "saved E files (x # rest) = saved E files rest"

text \<open>
  \<open>all_acts E P m\<close>: a run of \<open>m\<close> only adds actions, each of them satisfies \<open>P\<close>,
  and the files change as the added actions say.
\<close>

definition all_acts :: "env \<Rightarrow> (action \<Rightarrow> bool) \<Rightarrow> 'a prog \<Rightarrow> bool" where
  "all_acts E P m =
     (\<forall>s. \<exists>new. actions (snd (m s)) = actions s @ new \<and> list_all P new \<and>
                 npy_files (snd (m s)) = saved E (npy_files s) new)"

text \<open>
  \<open>sim m m'\<close>: from states that agree up to \<open>blank_action\<close>, the two programs end
  with the same result in states that agree up to \<open>blank_action\<close>.
\<close>

definition sim :: "'a prog \<Rightarrow> 'a prog \<Rightarrow> bool" where
  "sim m m' =
     (\<forall>s s'. map blank_action (actions s) = map blank_action (actions s') \<and>
             npy_files s = npy_files s' \<longrightarrow>
             fst (m s) = fst (m' s') \<and>
             map blank_action (actions (snd (m s))) = map blank_action (actions (snd (m' s'))) \<and>
             npy_files (snd (m s)) = npy_files (snd (m' s')))"

text \<open>
  The parameters with which the batches of one train_phase are met, one per batch: the
  optimizer step after a batch gives the parameters for the next.
\<close>

fun params_before :: "('p, 'x, 's) learner \<Rightarrow> 's \<Rightarrow> 'p \<Rightarrow> 'x list list \<Rightarrow> 'p list" where
  "params_before L sch p [] = []"
| "params_before L sch p (batch # rest) = p # params_before L sch (opt_step L sch p batch) rest"

section \<open>Example inputs\<close>


text \<open>
  A command line with the required options only and the defaults of the parser
  otherwise, in a given mode; a quiet environment (no CUDA, no call raises) whose frame
  directory holds three clips of two classes and whose \<open>UCF50\<close> directory lists the
  two classes in another order; the split record a training run leaves there; and an
  environment in which \<open>UCF50\<close> lists three classes while the model has two, and
  the report function raises a label mismatch.
\<close>

definition example_args :: "string \<Rightarrow> args" where
  "example_args md =
     \<lparr> frame_dir = Some ''frames'', train_size = 7 / 10, test_size = 1 / 10,
       fr_per_vid = 16, n_classes = 2, ckpt = Some ''./models/weights.pt'',
       model_type = ''lrcn'', cnn_backbone = ''resnet34'', pretrained = PyBool True,
       rnn_hidden_size = 100, rnn_n_layers = 1, mode = md, batch_size = 8,
       dropout = 1 / 10, learning_rate = 3 / 100000, n_epochs = 30 \<rparr>"

definition example_env :: env where
  "example_env =
     \<lparr> cuda_is_available = False,
       raises = (\<lambda>x. None),
       load_dataset_returns =
         (\<lambda>fd. ([(''frames/Biking/v1'', 0), (''frames/Diving/v2'', 1),
                 (''frames/Biking/v3'', 0)],
                [''Biking'' \<mapsto> 0, ''Diving'' \<mapsto> 1])),
       dataset_split_returns = (\<lambda>S tr ts. (take 1 S, take 1 (drop 1 S), drop 2 S)),
       test_returns = (\<lambda>m dls dev. ([0], [1], 0)),
       listdir_returns = (\<lambda>p. if p = ''UCF50'' then [''Diving'', ''Biking''] else []) \<rparr>"

definition example_splits :: splits where
  "example_splits =
     [(''train'', np_array [(''frames/Biking/v1'', 0)]),
      (''val'', np_array [(''frames/Diving/v2'', 1)]),
      (''test'', np_array [(''frames/Biking/v3'', 0)])]"

definition mismatch_env :: env where
  "mismatch_env =
     example_env
       \<lparr> raises := (\<lambda>x. case x of Call_get_test_report r \<Rightarrow> Some (Raised ''LabelMismatchError'')
                          | _ \<Rightarrow> None),
         listdir_returns := (\<lambda>p. [''Biking'', ''Diving'', ''Rowing'']) \<rparr>"

text \<open>
  Three samples of two classes, and a learner on integer parameters: a sample is a
  number with its label, the logits are the number and the parameter, the loss of a
  sample is the distance of the parameter from 2, and every optimizer step adds 1.
\<close>

definition example_samples :: "sample list" where
  "example_samples = [(''frames/Biking/v1'', 0), (''frames/Diving/v2'', 1), (''frames/Biking/v3'', 0)]"

definition example_learner :: "(int, int \<times> nat, unit) learner" where
  "example_learner =
     \<lparr> forward = (\<lambda>p x. [real_of_int (fst x), real_of_int p]),
       label_of = snd,
       sample_loss = (\<lambda>logits y. \<bar>logits ! 1 - 2\<bar>),
       opt_step = (\<lambda>sch p batch. p + 1),
       sched_step = (\<lambda>sch v. sch) \<rparr>"

section \<open>Properties\<close>

subsection \<open>preprocess.py: which files are read and where the frames go\<close>














subsection \<open>run.py: rules for runs of \<open>main\<close>\<close>

lemma seq_call:
  "seq (call E x) f s =
     (case raises E x of
        Some e \<Rightarrow> (Inl e, s\<lparr>actions := actions s @ [x]\<rparr>)
      | None \<Rightarrow> f () (s\<lparr>actions := actions s @ [x]\<rparr>))"
  by (simp add: seq_def call_def split: option.splits)

lemma seq_act: "seq (act x) f s = f () (s\<lparr>actions := actions s @ [x]\<rparr>)"
  by (simp add: seq_def act_def)

lemma seq_lift:
  "seq (lift r) f s = (case r of Inl e \<Rightarrow> (Inl e, s) | Inr x \<Rightarrow> f x s)"
  by (simp add: seq_def lift_def split: sum.splits)

lemma seq_np_load:
  "seq (np_load E path) f s =
     (case raises E (Call_np_load path) of
        Some e \<Rightarrow> (Inl e, s\<lparr>actions := actions s @ [Call_np_load path]\<rparr>)
      | None \<Rightarrow>
          (case npy_files s path of
             None \<Rightarrow> (Inl (OSError path), s\<lparr>actions := actions s @ [Call_np_load path]\<rparr>)
           | Some v \<Rightarrow> f v (s\<lparr>actions := actions s @ [Call_np_load path]\<rparr>)))"
  by (simp add: seq_def np_load_def call_def split: option.splits)

lemma seq_np_save:
  "seq (np_save E path v) f s =
     (case raises E (Call_np_save path v) of
        Some e \<Rightarrow> (Inl e, s\<lparr>actions := actions s @ [Call_np_save path v]\<rparr>)
      | None \<Rightarrow> f () (s\<lparr>actions := actions s @ [Call_np_save path v],
                         npy_files := (npy_files s)(path \<mapsto> v)\<rparr>))"
  by (simp add: seq_def np_save_def call_def split: option.splits)

lemma call_last:
  "call E x s =
     ((case raises E x of Some e \<Rightarrow> Inl e | None \<Rightarrow> Inr ()), s\<lparr>actions := actions s @ [x]\<rparr>)"
  by (simp add: call_def)

lemmas run_simps = seq_call seq_act seq_lift seq_np_load seq_np_save call_last act_def raise_def

text \<open>Rules for a property of every action of a run.\<close>

lemma saved_append: "saved E files (xs @ ys) = saved E (saved E files xs) ys"
  by (induction E files xs rule: saved.induct) simp_all

lemma all_acts_raise: "all_acts E P (raise e)"
  by (simp add: all_acts_def raise_def)

lemma all_acts_lift: "all_acts E P (lift r)"
  by (simp add: all_acts_def lift_def)

lemma all_acts_call:
  "P x \<Longrightarrow> (\<And>path v. x \<noteq> Call_np_save path v) \<Longrightarrow> all_acts E' P (call E x)"
  by (cases x) (auto simp add: all_acts_def call_def)

lemma all_acts_act:
  "P x \<Longrightarrow> (\<And>path v. x \<noteq> Call_np_save path v) \<Longrightarrow> all_acts E P (act x)"
  by (cases x) (auto simp add: all_acts_def act_def)

lemma all_acts_seq:
  assumes "all_acts E P m" and "\<And>v. all_acts E P (f v)"
  shows "all_acts E P (seq m f)"
  unfolding all_acts_def
proof
  fix s
  from assms(1) obtain n1 where n1: "actions (snd (m s)) = actions s @ n1" "list_all P n1"
    "npy_files (snd (m s)) = saved E (npy_files s) n1"
    unfolding all_acts_def by blast
  show "\<exists>new. actions (snd (seq m f s)) = actions s @ new \<and> list_all P new \<and>
          npy_files (snd (seq m f s)) = saved E (npy_files s) new"
  proof (cases "m s")
    case (Pair r s1)
    show ?thesis
    proof (cases r)
      case (Inl e)
      with Pair n1 show ?thesis by (auto simp: seq_def)
    next
      case (Inr v)
      from assms(2) [of v] obtain n2 where
        n2: "actions (snd (f v s1)) = actions s1 @ n2" "list_all P n2"
            "npy_files (snd (f v s1)) = saved E (npy_files s1) n2"
        unfolding all_acts_def by blast
      with Pair Inr n1 have "actions (snd (seq m f s)) = actions s @ (n1 @ n2)"
        "npy_files (snd (seq m f s)) = saved E (npy_files s) (n1 @ n2)"
        by (simp_all add: seq_def saved_append)
      moreover have "list_all P (n1 @ n2)" using n1 n2 by simp
      ultimately show ?thesis by blast
    qed
  qed
qed

lemma all_acts_np_save: "P (Call_np_save path v) \<Longrightarrow> all_acts E P (np_save E path v)"
  by (simp add: all_acts_def np_save_def seq_def call_def split: option.splits)

lemma all_acts_np_load: "P (Call_np_load path) \<Longrightarrow> all_acts E P (np_load E path)"
  by (simp add: all_acts_def np_load_def seq_def call_def split: option.splits)

lemma all_acts_prod:
  "(\<And>x y. all_acts E P (f x y)) \<Longrightarrow> all_acts E P (case p of (x, y) \<Rightarrow> f x y)"
  by (cases p) simp

lemma all_acts_if:
  "(c \<Longrightarrow> all_acts E P m) \<Longrightarrow> (\<not> c \<Longrightarrow> all_acts E P m') \<Longrightarrow>
     all_acts E P (if c then m else m')"
  by simp

lemmas all_acts_rules =
  all_acts_seq all_acts_call all_acts_act all_acts_np_save all_acts_np_load all_acts_lift
  all_acts_raise all_acts_prod all_acts_if

lemma all_acts_start:
  assumes "all_acts E P m"
  shows "list_all P (actions (snd (m (start files)))) \<and>
         npy_files (snd (m (start files))) = saved E files (actions (snd (m (start files))))"
proof -
  from assms obtain new where
    "actions (snd (m (start files))) = actions (start files) @ new" "list_all P new"
    "npy_files (snd (m (start files))) = saved E (npy_files (start files)) new"
    unfolding all_acts_def by blast
  then show ?thesis by (simp add: start_def)
qed

lemma all_acts_mem:
  assumes "all_acts E P m" and "x \<in> set (actions (snd (m (start files))))"
  shows "P x"
  using all_acts_start [OF assms(1), of files] assms(2) by (simp add: list_all_iff)

text \<open>Rules for two runs that agree up to \<open>blank_action\<close>.\<close>

lemma sim_raise: "sim (raise e) (raise e)"
  by (simp add: sim_def raise_def)

lemma sim_lift: "sim (lift r) (lift r)"
  by (simp add: sim_def lift_def)

lemma sim_call:
  "blank_action x = blank_action x' \<Longrightarrow> raises E x = raises E x' \<Longrightarrow> sim (call E x) (call E x')"
  by (simp add: sim_def call_def)

lemma sim_act: "blank_action x = blank_action x' \<Longrightarrow> sim (act x) (act x')"
  by (simp add: sim_def act_def)

lemma sim_seq:
  assumes "sim m m'" and "\<And>v. sim (f v) (f' v)"
  shows "sim (seq m f) (seq m' f')"
  unfolding sim_def
proof (intro allI impI)
  fix s s' :: state
  assume rel: "map blank_action (actions s) = map blank_action (actions s') \<and>
               npy_files s = npy_files s'"
  obtain r1 s1 where 1: "m s = (r1, s1)" by (cases "m s")
  obtain r2 s2 where 2: "m' s' = (r2, s2)" by (cases "m' s'")
  from assms(1) rel have
    "fst (m s) = fst (m' s') \<and>
     map blank_action (actions (snd (m s))) = map blank_action (actions (snd (m' s'))) \<and>
     npy_files (snd (m s)) = npy_files (snd (m' s'))"
    unfolding sim_def by blast
  with 1 2 have step: "r2 = r1"
    "map blank_action (actions s1) = map blank_action (actions s2)" "npy_files s1 = npy_files s2"
    by simp_all
  show "fst (seq m f s) = fst (seq m' f' s') \<and>
        map blank_action (actions (snd (seq m f s))) =
          map blank_action (actions (snd (seq m' f' s'))) \<and>
        npy_files (snd (seq m f s)) = npy_files (snd (seq m' f' s'))"
  proof (cases r1)
    case (Inl e)
    with 1 2 step show ?thesis by (simp add: seq_def)
  next
    case (Inr v)
    from assms(2) [of v] step(2,3) have
      "fst (f v s1) = fst (f' v s2) \<and>
       map blank_action (actions (snd (f v s1))) = map blank_action (actions (snd (f' v s2))) \<and>
       npy_files (snd (f v s1)) = npy_files (snd (f' v s2))"
      unfolding sim_def by blast
    with 1 2 step Inr show ?thesis by (simp add: seq_def)
  qed
qed

lemma sim_np_save: "sim (np_save E path v) (np_save E path v)"
  by (simp add: sim_def np_save_def seq_def call_def split: option.splits)

lemma sim_np_load: "sim (np_load E path) (np_load E path)"
  by (simp add: sim_def np_load_def seq_def call_def split: option.splits)

lemma sim_prod:
  "p = p' \<Longrightarrow> (\<And>x y. sim (f x y) (f' x y)) \<Longrightarrow>
     sim (case p of (x, y) \<Rightarrow> f x y) (case p' of (x, y) \<Rightarrow> f' x y)"
  by (cases p) auto

lemma sim_if:
  "c = c' \<Longrightarrow> (c \<Longrightarrow> sim m1 m1') \<Longrightarrow> (\<not> c \<Longrightarrow> sim m2 m2') \<Longrightarrow>
     sim (if c then m1 else m2) (if c' then m1' else m2')"
  by simp

lemmas sim_rules =
  sim_seq sim_call sim_act sim_np_save sim_np_load sim_lift sim_raise sim_prod sim_if

lemma main_models_acts:
  "all_acts E (\<lambda>x. \<forall>m \<in> set (models_of x).
       m = LRCN (rnn_hidden_size a) (rnn_n_layers a) (dropout a) (n_classes a)
             (pretrained a) (cnn_backbone a)) (main E a)"
  unfolding main_def main_train_def main_eval_def Let_def
  by (intro all_acts_rules) simp_all

lemma main_labels_acts:
  "all_acts E (\<lambda>x. \<forall>t out d cats. x = Call_get_confusion_matrix (ConfusionMatrix t out d cats) \<longrightarrow>
       cats = listdir_returns E ''UCF50'' \<and> d = labels_dict_of cats) (main E a)"
  unfolding main_def main_train_def main_eval_def Let_def
  by (intro all_acts_rules) simp_all

lemma main_loss_acts:
  "all_acts E (\<lambda>x. \<forall>dls m lf opt sch dev dir n. x = Call_train dls m lf opt sch dev dir n \<longrightarrow>
       lf = CrossEntropyLoss ReductionSum) (main E a)"
  unfolding main_def main_train_def main_eval_def Let_def
  by (intro all_acts_rules) simp_all

lemma main_unfold:
  "main E a s =
     (case raises E (Call_transform_stats (model_type a)) of
        Some e \<Rightarrow> (Inl e, s\<lparr>actions := actions s @ [Call_transform_stats (model_type a)]\<rparr>)
      | None \<Rightarrow>
     (case raises E (Call_compose_data_transforms (TransformStats (model_type a))) of
        Some e \<Rightarrow> (Inl e, s\<lparr>actions := actions s @
                      [Call_transform_stats (model_type a),
                       Call_compose_data_transforms (TransformStats (model_type a))]\<rparr>)
      | None \<Rightarrow>
     (case raises E (Call_LRCN (LRCN (rnn_hidden_size a) (rnn_n_layers a) (dropout a)
                        (n_classes a) (pretrained a) (cnn_backbone a))) of
        Some e \<Rightarrow> (Inl e, s\<lparr>actions := actions s @
                      [Call_transform_stats (model_type a),
                       Call_compose_data_transforms (TransformStats (model_type a)),
                       Call_LRCN (LRCN (rnn_hidden_size a) (rnn_n_layers a) (dropout a)
                        (n_classes a) (pretrained a) (cnn_backbone a))]\<rparr>)
      | None \<Rightarrow>
          (let s3 = s\<lparr>actions := actions s @
                      [Call_transform_stats (model_type a),
                       Call_compose_data_transforms (TransformStats (model_type a)),
                       Call_LRCN (LRCN (rnn_hidden_size a) (rnn_n_layers a) (dropout a)
                        (n_classes a) (pretrained a) (cnn_backbone a))]\<rparr>;
               dev = (if cuda_is_available E then Cuda0 else Cpu);
               mdl = LRCN (rnn_hidden_size a) (rnn_n_layers a) (dropout a)
                        (n_classes a) (pretrained a) (cnn_backbone a)
           in if mode a = ''train''
              then main_train E a (TrTransforms (TransformStats (model_type a)))
                     (ValTsTransforms (TransformStats (model_type a))) mdl dev s3
              else if mode a = ''eval''
              then main_eval E a (ValTsTransforms (TransformStats (model_type a))) mdl dev s3
              else (Inl (ValueError mode_message), s3)))))"
  by (simp add: main_def seq_call raise_def Let_def split: option.splits)

lemma main_eval_accuracy:
  assumes "Call_listdir ''UCF50'' \<in> set (actions (snd (main_eval E a tf mdl dev s)))"
    and "Call_listdir ''UCF50'' \<notin> set (actions s)"
    and "raises E (Call_listdir ''UCF50'') = None"
  shows "\<exists>dls targets outputs accuracy.
           test_returns E mdl dls dev = (targets, outputs, accuracy) \<and>
           Print_accuracy accuracy \<in> set (actions (snd (main_eval E a tf mdl dev s)))"
  using assms
  by (auto simp: main_eval_def run_simps Let_def
           split: option.splits sum.splits prod.splits)

subsection \<open>run.py: the mode and the required options\<close>

lemma read_items_error:
  "read_items to_float items given = Inl e \<Longrightarrow> \<exists>code. e = SystemExit code"
  by (induction to_float items given rule: read_items.induct) (auto split: if_splits)

lemma read_items_given:
  "read_items to_float items given = Inr g \<Longrightarrow> (d, v) \<in> set g \<Longrightarrow>
     (d, v) \<in> set given \<or> Given d v \<in> set items"
  by (induction to_float items given arbitrary: g rule: read_items.induct)
     (auto split: if_splits)

lemma args_parser_missing:
  assumes "dest \<in> set required_dests" and "\<And>v. Given dest v \<notin> set items"
  shows "\<exists>code. args_parser to_float items = Inl (SystemExit code)"
proof (cases "read_items to_float items []")
  case (Inl e)
  with read_items_error [OF Inl] show ?thesis by (auto simp: args_parser_def)
next
  case (Inr g)
  have "map_of g dest = None"
  proof (rule ccontr)
    assume "map_of g dest \<noteq> None"
    then obtain v where "(dest, v) \<in> set g" by (auto dest: map_of_SomeD)
    from read_items_given [OF Inr this] assms(2) show False by auto
  qed
  with Inr assms(1) show ?thesis by (auto simp: args_parser_def)
qed

text \<open>
  C4 (as amended).  With a mode that is neither \<open>train\<close> nor \<open>eval\<close>, \<open>main\<close> always
  fails and touches no file, but only after it has asked for the transform statistics,
  composed the transforms and constructed the LRCN model: what it has done when it
  fails is a nonempty initial part of these three calls, and when none of them raises
  the error is the \<open>ValueError\<close> of line 204, raised after all three.  A command
  line on which \<open>argparse\<close> finds no occurrence of a required option (\<open>n_classes\<close>,
  \<open>mode\<close>, \<open>batch_size\<close>) ends the script in the parser, before \<open>main\<close> does
  anything.
\<close>

theorem invalid_mode_and_missing_options:
  "(mode a \<noteq> ''train'' \<and> mode a \<noteq> ''eval'' \<longrightarrow>
      (\<exists>e. fst (main E a (start files)) = Inl e)
      \<and> npy_files (snd (main E a (start files))) = files
      \<and> (\<exists>k. actions (snd (main E a (start files))) =
             take (Suc k)
               [Call_transform_stats (model_type a),
                Call_compose_data_transforms (TransformStats (model_type a)),
                Call_LRCN (LRCN (rnn_hidden_size a) (rnn_n_layers a) (dropout a)
                             (n_classes a) (pretrained a) (cnn_backbone a))])
      \<and> (raises E (Call_transform_stats (model_type a)) = None
           \<and> raises E (Call_compose_data_transforms (TransformStats (model_type a))) = None
           \<and> raises E (Call_LRCN (LRCN (rnn_hidden_size a) (rnn_n_layers a) (dropout a)
                             (n_classes a) (pretrained a) (cnn_backbone a))) = None
           \<longrightarrow> main E a (start files) =
                 (Inl (ValueError mode_message),
                  \<lparr> actions =
                      [Call_transform_stats (model_type a),
                       Call_compose_data_transforms (TransformStats (model_type a)),
                       Call_LRCN (LRCN (rnn_hidden_size a) (rnn_n_layers a) (dropout a)
                                    (n_classes a) (pretrained a) (cnn_backbone a))],
                     npy_files = files \<rparr>)))
   \<and> ((\<exists>dest \<in> set required_dests. \<forall>v. Given dest v \<notin> set items) \<longrightarrow>
        (\<exists>code. script E to_float items files = (Inl (SystemExit code), start files)))"
proof (intro conjI impI)
  assume m: "mode a \<noteq> ''train'' \<and> mode a \<noteq> ''eval''"
  show "\<exists>e. fst (main E a (start files)) = Inl e"
    using m by (simp add: main_unfold start_def Let_def split: option.splits)
  show "npy_files (snd (main E a (start files))) = files"
    using m by (simp add: main_unfold start_def Let_def split: option.splits)
  show "\<exists>k. actions (snd (main E a (start files))) =
             take (Suc k)
               [Call_transform_stats (model_type a),
                Call_compose_data_transforms (TransformStats (model_type a)),
                Call_LRCN (LRCN (rnn_hidden_size a) (rnn_n_layers a) (dropout a)
                             (n_classes a) (pretrained a) (cnn_backbone a))]"
  proof (cases "raises E (Call_transform_stats (model_type a))")
    case (Some e)
    then show ?thesis using m
      by (intro exI [of _ 0]) (simp add: main_unfold start_def)
  next
    case n1: None
    show ?thesis
    proof (cases "raises E (Call_compose_data_transforms (TransformStats (model_type a)))")
      case (Some e)
      then show ?thesis using m n1
        by (intro exI [of _ 1]) (simp add: main_unfold start_def)
    next
      case n2: None
      show ?thesis using m n1 n2
        by (intro exI [of _ 2]) (simp add: main_unfold start_def Let_def split: option.splits)
    qed
  qed
next
  assume m: "mode a \<noteq> ''train'' \<and> mode a \<noteq> ''eval''"
    and "raises E (Call_transform_stats (model_type a)) = None
           \<and> raises E (Call_compose_data_transforms (TransformStats (model_type a))) = None
           \<and> raises E (Call_LRCN (LRCN (rnn_hidden_size a) (rnn_n_layers a) (dropout a)
                             (n_classes a) (pretrained a) (cnn_backbone a))) = None"
  then show "main E a (start files) =
                 (Inl (ValueError mode_message),
                  \<lparr> actions =
                      [Call_transform_stats (model_type a),
                       Call_compose_data_transforms (TransformStats (model_type a)),
                       Call_LRCN (LRCN (rnn_hidden_size a) (rnn_n_layers a) (dropout a)
                                    (n_classes a) (pretrained a) (cnn_backbone a))],
                     npy_files = files \<rparr>)"
    by (simp add: main_unfold start_def Let_def)
next
  assume "\<exists>dest \<in> set required_dests. \<forall>v. Given dest v \<notin> set items"
  then obtain dest where "dest \<in> set required_dests"
    "\<And>v. Given dest v \<notin> set items" by blast
  from args_parser_missing [OF this] obtain code where
    "args_parser to_float items = Inl (SystemExit code)" by blast
  then show "\<exists>code. script E to_float items files = (Inl (SystemExit code), start files)"
    by (simp add: script_def)
qed

subsection \<open>run.py: the split record\<close>

lemma of_char_digit_char: "d < 10 \<Longrightarrow> (of_char (digit_char d) :: nat) = 48 + d"
  by (simp add: digit_char_def)

lemma is_digit_digit_char: "d < 10 \<Longrightarrow> is_digit (digit_char d)"
  by (simp add: is_digit_def of_char_digit_char)

lemma digit_val_digit_char: "d < 10 \<Longrightarrow> digit_val (digit_char d) = d"
  by (simp add: digit_val_def of_char_digit_char)

lemma digits_val_snoc: "digits_val (ds @ [c]) = 10 * digits_val ds + digit_val c"
  by (simp add: digits_val_def)

lemma digits_of_nonempty: "digits_of n \<noteq> []"
  by (subst digits_of.simps) simp

lemma digits_of_digits: "list_all is_digit (digits_of n)"
proof (induction n rule: digits_of.induct)
  case (1 n)
  show ?case
  proof (cases "n < 10")
    case True
    then show ?thesis by (subst digits_of.simps) (simp add: is_digit_digit_char)
  next
    case False
    with "1" show ?thesis by (subst digits_of.simps) (simp add: is_digit_digit_char)
  qed
qed

lemma digits_val_digits_of: "digits_val (digits_of n) = n"
proof (induction n rule: digits_of.induct)
  case (1 n)
  show ?case
  proof (cases "n < 10")
    case True
    then show ?thesis
      by (subst digits_of.simps) (simp add: digits_val_def digit_val_digit_char)
  next
    case False
    with "1" show ?thesis
      by (subst digits_of.simps) (simp add: digits_val_snoc digit_val_digit_char)
  qed
qed

lemma digit_tail_digits: "list_all is_digit ds \<Longrightarrow> digit_tail ds = Some ds"
  by (induction ds rule: digit_tail.induct) simp_all

lemma unsigned_int_digits_of: "unsigned_int (digits_of n) = Some n"
proof -
  obtain c r where cr: "digits_of n = c # r"
    using digits_of_nonempty [of n] by (cases "digits_of n") auto
  with digits_of_digits [of n] have "is_digit c" "list_all is_digit r" by simp_all
  with cr digits_val_digits_of [of n] show ?thesis
    by (simp add: unsigned_int_def digit_tail_digits)
qed

lemma digit_not_space: "is_digit c \<Longrightarrow> \<not> is_space c"
  by (auto simp: is_digit_def is_space_def)

lemma digit_not_sign: "is_digit c \<Longrightarrow> c \<noteq> CHR ''-'' \<and> c \<noteq> CHR ''+''"
  by (auto simp: is_digit_def)

lemma py_strip_id:
  assumes "s \<noteq> []" and "\<not> is_space (hd s)" and "\<not> is_space (last s)"
  shows "py_strip s = s"
proof -
  from assms(1,2) have 1: "dropWhile is_space s = s" by (cases s) auto
  from assms(1,3) have "dropWhile is_space (rev s) = rev s"
    by (cases "rev s") (auto simp: last_rev [symmetric] simp del: last_rev)
  with 1 show ?thesis by (simp add: py_strip_def)
qed

lemma digits_of_ends:
  "is_digit (hd (digits_of n)) \<and> is_digit (last (digits_of n))"
proof -
  have "\<forall>c \<in> set (digits_of n). is_digit c"
    using digits_of_digits [of n] by (simp add: list_all_iff)
  moreover have "hd (digits_of n) \<in> set (digits_of n)" "last (digits_of n) \<in> set (digits_of n)"
    using digits_of_nonempty [of n] by simp_all
  ultimately show ?thesis by blast
qed

lemma py_int_py_str: "py_int (py_str i) = Some i"
proof (cases "i < 0")
  case True
  let ?ds = "digits_of (nat (- i))"
  have "py_strip (CHR ''-'' # ?ds) = CHR ''-'' # ?ds"
    using digits_of_ends [of "nat (- i)"] digits_of_nonempty [of "nat (- i)"]
    by (intro py_strip_id) (auto simp: is_space_def dest: digit_not_space)
  with True show ?thesis
    by (simp add: py_int_def py_str_def unsigned_int_digits_of)
next
  case False
  let ?ds = "digits_of (nat i)"
  obtain c r where cr: "?ds = c # r" using digits_of_nonempty [of "nat i"] by (cases ?ds) auto
  have strip: "py_strip ?ds = ?ds"
    using digits_of_ends [of "nat i"] digits_of_nonempty [of "nat i"]
    by (intro py_strip_id) (auto dest: digit_not_space)
  from cr digits_of_ends [of "nat i"] have "is_digit c" by simp
  then have "c \<noteq> CHR ''-''" "c \<noteq> CHR ''+''" using digit_not_sign by auto
  moreover have "unsigned_int (c # r) = Some (nat i)"
    using unsigned_int_digits_of [of "nat i"] cr by simp
  ultimately show ?thesis using False strip cr
    by (simp add: py_int_def py_str_def)
qed

lemma samples_of_rows_np_array: "samples_of_rows (np_array split) = Inr split"
  by (induction split) (auto simp: np_array_def sample_of_row_def py_int_py_str)

lemma test_split_of_saved:
  "test_split_of [(''train'', np_array tr_split), (''val'', np_array val_split),
                  (''test'', np_array ts_split)] = Inr ts_split"
  by (simp add: test_split_of_def samples_of_rows_np_array)







lemma main_setup_failed:
  assumes "\<not> (raises E (Call_transform_stats (model_type a)) = None
           \<and> raises E (Call_compose_data_transforms (TransformStats (model_type a))) = None
           \<and> raises E (Call_LRCN (LRCN (rnn_hidden_size a) (rnn_n_layers a) (dropout a)
                             (n_classes a) (pretrained a) (cnn_backbone a))) = None)"
  shows "set (actions (snd (main E a (start files)))) \<subseteq>
           {Call_transform_stats (model_type a),
            Call_compose_data_transforms (TransformStats (model_type a)),
            Call_LRCN (LRCN (rnn_hidden_size a) (rnn_n_layers a) (dropout a)
                             (n_classes a) (pretrained a) (cnn_backbone a))}"
  using assms by (auto simp: main_unfold start_def split: option.splits)





subsection \<open>run.py: the model and the model type\<close>

lemma main_sim:
  assumes r: "raises E = r \<circ> blank_action"
    and t: "test_returns E = (\<lambda>m dls dev. t m (blank_dataloaders dls) dev)"
  shows "sim (main E (a\<lparr>model_type := mt\<rparr>)) (main E a)"
  unfolding main_def main_train_def main_eval_def Let_def
  by (intro sim_rules) (simp_all add: r t)

lemma all_acts_grows:
  assumes "all_acts E P (m :: unit prog)"
  shows "\<exists>new. actions (snd (m s)) = actions s @ new"
  using assms unfolding all_acts_def by blast

lemma main_train_grows: "\<exists>new. actions (snd (main_train E a t1 t2 m d s)) = actions s @ new"
proof (rule all_acts_grows)
  show "all_acts E (\<lambda>x. True) (main_train E a t1 t2 m d)"
    unfolding main_train_def Let_def by (intro all_acts_rules) simp_all
qed

lemma main_eval_grows: "\<exists>new. actions (snd (main_eval E a t2 m d s)) = actions s @ new"
proof (rule all_acts_grows)
  show "all_acts E (\<lambda>x. True) (main_eval E a t2 m d)"
    unfolding main_eval_def Let_def by (intro all_acts_rules) simp_all
qed

lemma main_prefix:
  assumes "raises E (Call_transform_stats (model_type a)) = None"
    and "raises E (Call_compose_data_transforms (TransformStats (model_type a))) = None"
  shows "\<exists>rest. actions (snd (main E a (start files))) =
        [Call_transform_stats (model_type a),
         Call_compose_data_transforms (TransformStats (model_type a)),
         Call_LRCN (LRCN (rnn_hidden_size a) (rnn_n_layers a) (dropout a) (n_classes a)
                      (pretrained a) (cnn_backbone a))] @ rest"
proof (cases "raises E (Call_LRCN (LRCN (rnn_hidden_size a) (rnn_n_layers a) (dropout a)
                   (n_classes a) (pretrained a) (cnn_backbone a)))")
  case (Some e)
  then show ?thesis using assms by (simp add: main_unfold start_def)
next
  case None
  let ?s3 = "\<lparr>actions = [Call_transform_stats (model_type a),
         Call_compose_data_transforms (TransformStats (model_type a)),
         Call_LRCN (LRCN (rnn_hidden_size a) (rnn_n_layers a) (dropout a) (n_classes a)
                      (pretrained a) (cnn_backbone a))], npy_files = files\<rparr>"
  consider "mode a = ''train''" | "mode a \<noteq> ''train''" "mode a = ''eval''"
    | "mode a \<noteq> ''train''" "mode a \<noteq> ''eval''" by blast
  then show ?thesis
  proof cases
    case 1
    then have "main E a (start files) =
        main_train E a (TrTransforms (TransformStats (model_type a)))
          (ValTsTransforms (TransformStats (model_type a)))
          (LRCN (rnn_hidden_size a) (rnn_n_layers a) (dropout a) (n_classes a)
                      (pretrained a) (cnn_backbone a))
          (if cuda_is_available E then Cuda0 else Cpu) ?s3"
      using None assms by (simp add: main_unfold start_def Let_def)
    with main_train_grows [of E a _ _ _ _ ?s3] show ?thesis by simp
  next
    case 2
    then have "main E a (start files) =
        main_eval E a (ValTsTransforms (TransformStats (model_type a)))
          (LRCN (rnn_hidden_size a) (rnn_n_layers a) (dropout a) (n_classes a)
                      (pretrained a) (cnn_backbone a))
          (if cuda_is_available E then Cuda0 else Cpu) ?s3"
      using None assms by (simp add: main_unfold start_def Let_def)
    with main_eval_grows [of E a _ _ _ ?s3] show ?thesis by simp
  next
    case 3
    then show ?thesis using None assms by (simp add: main_unfold start_def Let_def)
  qed
qed

text \<open>
  C9.  Whatever the mode and the model type, once \<open>transform_stats\<close> and
  \<open>compose_data_transforms\<close> have returned the next thing \<open>main\<close> does is construct
  \<open>LRCN\<close> from the six options of lines 140 and 141, before it looks at the mode.
  Every model handed to any call of the run is this LRCN, also when \<open>model_type\<close> is
  set to another value such as \<open>3dcnn\<close>.  And \<open>model_type\<close> reaches nothing but the
  transform statistics and the collation argument of the data loaders: in an
  environment whose answers do not depend on these, changing \<open>model_type\<close> changes
  neither the result of the run, nor the files, nor any action beyond these places.
\<close>

theorem lrcn_whatever_model_type:
  "(raises E (Call_transform_stats (model_type a)) = None \<longrightarrow>
    raises E (Call_compose_data_transforms (TransformStats (model_type a))) = None \<longrightarrow>
      take 3 (actions (snd (main E a (start files)))) =
        [Call_transform_stats (model_type a),
         Call_compose_data_transforms (TransformStats (model_type a)),
         Call_LRCN (LRCN (rnn_hidden_size a) (rnn_n_layers a) (dropout a) (n_classes a)
                      (pretrained a) (cnn_backbone a))])
   \<and> (\<forall>x \<in> set (actions (snd (main E a (start files)))). \<forall>m \<in> set (models_of x).
         m = LRCN (rnn_hidden_size a) (rnn_n_layers a) (dropout a) (n_classes a)
               (pretrained a) (cnn_backbone a))
   \<and> (\<forall>x \<in> set (actions (snd (main E (a\<lparr>model_type := mt\<rparr>) (start files)))).
         \<forall>m \<in> set (models_of x).
         m = LRCN (rnn_hidden_size a) (rnn_n_layers a) (dropout a) (n_classes a)
               (pretrained a) (cnn_backbone a))
   \<and> ((\<exists>r. raises E = r \<circ> blank_action) \<longrightarrow>
        (\<exists>t. test_returns E = (\<lambda>m dls dev. t m (blank_dataloaders dls) dev)) \<longrightarrow>
          fst (main E (a\<lparr>model_type := mt\<rparr>) (start files)) = fst (main E a (start files)) \<and>
          map blank_action (actions (snd (main E (a\<lparr>model_type := mt\<rparr>) (start files)))) =
            map blank_action (actions (snd (main E a (start files)))) \<and>
          npy_files (snd (main E (a\<lparr>model_type := mt\<rparr>) (start files))) =
            npy_files (snd (main E a (start files))))"
proof (intro conjI impI ballI)
  assume "raises E (Call_transform_stats (model_type a)) = None"
    and "raises E (Call_compose_data_transforms (TransformStats (model_type a))) = None"
  then show "take 3 (actions (snd (main E a (start files)))) =
        [Call_transform_stats (model_type a),
         Call_compose_data_transforms (TransformStats (model_type a)),
         Call_LRCN (LRCN (rnn_hidden_size a) (rnn_n_layers a) (dropout a) (n_classes a)
                      (pretrained a) (cnn_backbone a))]"
    using main_prefix [of E a files] by auto
next
  fix x m
  assume "x \<in> set (actions (snd (main E a (start files))))" "m \<in> set (models_of x)"
  with all_acts_mem [OF main_models_acts, of x E a files]
  show "m = LRCN (rnn_hidden_size a) (rnn_n_layers a) (dropout a) (n_classes a)
               (pretrained a) (cnn_backbone a)" by blast
next
  fix x m
  assume "x \<in> set (actions (snd (main E (a\<lparr>model_type := mt\<rparr>) (start files))))"
    "m \<in> set (models_of x)"
  with all_acts_mem [OF main_models_acts, of x E "a\<lparr>model_type := mt\<rparr>" files]
  show "m = LRCN (rnn_hidden_size a) (rnn_n_layers a) (dropout a) (n_classes a)
               (pretrained a) (cnn_backbone a)" by simp
next
  assume "\<exists>r. raises E = r \<circ> blank_action"
    and "\<exists>t. test_returns E = (\<lambda>m dls dev. t m (blank_dataloaders dls) dev)"
  then obtain r t where "raises E = r \<circ> blank_action"
    "test_returns E = (\<lambda>m dls dev. t m (blank_dataloaders dls) dev)" by blast
  from main_sim [OF this]
  have "fst (main E (a\<lparr>model_type := mt\<rparr>) (start files)) = fst (main E a (start files)) \<and>
          map blank_action (actions (snd (main E (a\<lparr>model_type := mt\<rparr>) (start files)))) =
            map blank_action (actions (snd (main E a (start files)))) \<and>
          npy_files (snd (main E (a\<lparr>model_type := mt\<rparr>) (start files))) =
            npy_files (snd (main E a (start files)))"
    unfolding sim_def by blast
  then show "fst (main E (a\<lparr>model_type := mt\<rparr>) (start files)) = fst (main E a (start files))"
    and "map blank_action (actions (snd (main E (a\<lparr>model_type := mt\<rparr>) (start files)))) =
            map blank_action (actions (snd (main E a (start files))))"
    and "npy_files (snd (main E (a\<lparr>model_type := mt\<rparr>) (start files))) =
            npy_files (snd (main E a (start files)))"
    by blast+
qed

subsection \<open>run.py: the label dictionary and the report\<close>

lemma main_train_errors:
  "fst (main_train E a t1 t2 m d s) = Inl e \<Longrightarrow> \<exists>x. raises E x = Some e"
  by (auto simp: main_train_def run_simps Let_def split: option.splits sum.splits prod.splits)

lemma main_eval_errors:
  "fst (main_eval E a t2 m d s) = Inl e \<Longrightarrow>
     (\<exists>x. raises E x = Some e) \<or> (npy_files s ''./splits.npy'' = None \<and> e = OSError ''./splits.npy'') \<or>
     (\<exists>file. npy_files s ''./splits.npy'' = Some file \<and> test_split_of file = Inl e)"
  by (auto simp: main_eval_def run_simps Let_def split: option.splits sum.splits prod.splits)

lemma labels_fold:
  assumes "distinct cats"
  shows "(\<forall>i < length cats.
            foldl (\<lambda>d (i, x). d(x \<mapsto> i)) m (enumerate n cats) (cats ! i) = Some (n + i))
         \<and> (\<forall>k. k \<notin> set cats \<longrightarrow> foldl (\<lambda>d (i, x). d(x \<mapsto> i)) m (enumerate n cats) k = m k)"
  using assms
proof (induction cats arbitrary: m n)
  case Nil
  then show ?case by simp
next
  case (Cons c cats)
  let ?f = "\<lambda>d (i, x). d(x \<mapsto> i)"
  from Cons.prems have d: "distinct cats" and c: "c \<notin> set cats" by simp_all
  define F where "F = foldl ?f (m(c \<mapsto> n)) (enumerate (Suc n) cats)"
  from Cons.IH [OF d, of "m(c \<mapsto> n)" "Suc n"]
  have inside: "\<And>i. i < length cats \<Longrightarrow> F (cats ! i) = Some (Suc n + i)"
    and outside: "\<And>k. k \<notin> set cats \<Longrightarrow> F k = (m(c \<mapsto> n)) k"
    unfolding F_def by blast+
  have step: "foldl ?f m (enumerate n (c # cats)) = F"
    unfolding F_def by simp
  show ?case unfolding step
  proof (intro conjI allI impI)
    fix i assume i: "i < length (c # cats)"
    show "F ((c # cats) ! i) = Some (n + i)"
    proof (cases i)
      case 0
      with outside [OF c] show ?thesis by simp
    next
      case (Suc j)
      with i have "j < length cats" by simp
      from inside [OF this] Suc show ?thesis by simp
    qed
  next
    fix k assume "k \<notin> set (c # cats)"
    then have "k \<notin> set cats" "k \<noteq> c" by simp_all
    with outside [of k] show "F k = m k" by simp
  qed
qed

lemma labels_dict_of_distinct:
  assumes "distinct cats"
  shows "dom (labels_dict_of cats) = set cats
         \<and> (\<forall>i < length cats. labels_dict_of cats (cats ! i) = Some i)"
proof -
  note L = labels_fold [OF assms, of Map.empty 0, folded labels_dict_of_def]
  have "k \<in> dom (labels_dict_of cats) \<longleftrightarrow> k \<in> set cats" for k
  proof
    assume "k \<in> dom (labels_dict_of cats)"
    then show "k \<in> set cats" using L by (cases "k \<in> set cats") auto
  next
    assume "k \<in> set cats"
    then obtain i where "i < length cats" "cats ! i = k" by (auto simp: in_set_conv_nth)
    with L show "k \<in> dom (labels_dict_of cats)" by auto
  qed
  with L show ?thesis by auto
qed

text \<open>
  C1 (as amended).  The label dictionary an evaluation run hands to the confusion
  matrix is the one line 186 builds from the listing \<open>os.listdir('UCF50')\<close> of that
  run: it is a function of this listing alone, not of any file on disk nor of the
  frame directory, so the same listing always gives the same dictionary; when the
  listed names are distinct it maps exactly these names, the one at position \<open>i\<close> to
  \<open>i\<close>.
\<close>

theorem eval_labels_from_listing:
  "(\<forall>t out d cats.
      Call_get_confusion_matrix (ConfusionMatrix t out d cats)
        \<in> set (actions (snd (main E a (start files)))) \<longrightarrow>
      cats = listdir_returns E ''UCF50'' \<and> d = labels_dict_of (listdir_returns E ''UCF50''))
   \<and> (distinct (listdir_returns E ''UCF50'') \<longrightarrow>
        dom (labels_dict_of (listdir_returns E ''UCF50'')) = set (listdir_returns E ''UCF50'')
        \<and> (\<forall>i < length (listdir_returns E ''UCF50'').
              labels_dict_of (listdir_returns E ''UCF50'') (listdir_returns E ''UCF50'' ! i) = Some i))"
proof (intro conjI allI impI)
  fix t out d cats
  assume "Call_get_confusion_matrix (ConfusionMatrix t out d cats)
        \<in> set (actions (snd (main E a (start files))))"
  from all_acts_mem [OF main_labels_acts this]
  show "cats = listdir_returns E ''UCF50''" "d = labels_dict_of (listdir_returns E ''UCF50'')"
    by blast+
next
  assume d: "distinct (listdir_returns E ''UCF50'')"
  from labels_dict_of_distinct [OF d]
  show "dom (labels_dict_of (listdir_returns E ''UCF50'')) = set (listdir_returns E ''UCF50'')"
    by blast
  fix i assume "i < length (listdir_returns E ''UCF50'')"
  with labels_dict_of_distinct [OF d]
  show "labels_dict_of (listdir_returns E ''UCF50'') (listdir_returns E ''UCF50'' ! i) = Some i"
    by blast
qed

lemma main_errors:
  assumes "fst (main E a (start files)) = Inl e"
  shows "(\<exists>x. raises E x = Some e)
       \<or> (files ''./splits.npy'' = None \<and> e = OSError ''./splits.npy'')
       \<or> (\<exists>file. files ''./splits.npy'' = Some file \<and> test_split_of file = Inl e)
       \<or> (mode a \<noteq> ''train'' \<and> mode a \<noteq> ''eval'' \<and> e = ValueError mode_message)"
proof (cases "raises E (Call_transform_stats (model_type a)) = None
           \<and> raises E (Call_compose_data_transforms (TransformStats (model_type a))) = None
           \<and> raises E (Call_LRCN (LRCN (rnn_hidden_size a) (rnn_n_layers a) (dropout a)
                             (n_classes a) (pretrained a) (cnn_backbone a))) = None")
  case False
  with assms show ?thesis
    by (auto simp: main_unfold start_def split: option.splits)
next
  case True
  let ?s3 = "\<lparr>actions = [Call_transform_stats (model_type a),
         Call_compose_data_transforms (TransformStats (model_type a)),
         Call_LRCN (LRCN (rnn_hidden_size a) (rnn_n_layers a) (dropout a) (n_classes a)
                      (pretrained a) (cnn_backbone a))], npy_files = files\<rparr>"
  consider "mode a = ''train''" | "mode a \<noteq> ''train''" "mode a = ''eval''"
    | "mode a \<noteq> ''train''" "mode a \<noteq> ''eval''" by blast
  then show ?thesis
  proof cases
    case 1
    with True assms have
      "fst (main_train E a (TrTransforms (TransformStats (model_type a)))
          (ValTsTransforms (TransformStats (model_type a)))
          (LRCN (rnn_hidden_size a) (rnn_n_layers a) (dropout a) (n_classes a)
                      (pretrained a) (cnn_backbone a))
          (if cuda_is_available E then Cuda0 else Cpu) ?s3) = Inl e"
      by (simp add: main_unfold start_def Let_def)
    from main_train_errors [OF this] show ?thesis by blast
  next
    case 2
    with True assms have
      "fst (main_eval E a (ValTsTransforms (TransformStats (model_type a)))
          (LRCN (rnn_hidden_size a) (rnn_n_layers a) (dropout a) (n_classes a)
                      (pretrained a) (cnn_backbone a))
          (if cuda_is_available E then Cuda0 else Cpu) ?s3) = Inl e"
      by (simp add: main_unfold start_def Let_def)
    from main_eval_errors [OF this] show ?thesis by auto
  next
    case 3
    with True assms show ?thesis by (simp add: main_unfold start_def Let_def)
  qed
qed

lemma main_accuracy:
  assumes "Call_listdir ''UCF50'' \<in> set (actions (snd (main E a (start files))))"
    and "raises E (Call_listdir ''UCF50'') = None"
  shows "\<exists>dls targets outputs accuracy.
           test_returns E (LRCN (rnn_hidden_size a) (rnn_n_layers a) (dropout a) (n_classes a)
                      (pretrained a) (cnn_backbone a)) dls
             (if cuda_is_available E then Cuda0 else Cpu) = (targets, outputs, accuracy) \<and>
           Print_accuracy accuracy \<in> set (actions (snd (main E a (start files))))"
proof (cases "raises E (Call_transform_stats (model_type a)) = None
           \<and> raises E (Call_compose_data_transforms (TransformStats (model_type a))) = None
           \<and> raises E (Call_LRCN (LRCN (rnn_hidden_size a) (rnn_n_layers a) (dropout a)
                             (n_classes a) (pretrained a) (cnn_backbone a))) = None")
  case False
  from main_setup_failed [OF False, of files] assms(1) show ?thesis by auto
next
  case True
  have nolist: "all_acts E (\<lambda>x. x \<noteq> Call_listdir ''UCF50'') (main_train E a t1 t2 m d)" for t1 t2 m d
    unfolding main_train_def Let_def by (intro all_acts_rules) simp_all
  let ?s3 = "\<lparr>actions = [Call_transform_stats (model_type a),
         Call_compose_data_transforms (TransformStats (model_type a)),
         Call_LRCN (LRCN (rnn_hidden_size a) (rnn_n_layers a) (dropout a) (n_classes a)
                      (pretrained a) (cnn_backbone a))], npy_files = files\<rparr>"
  consider "mode a = ''train''" | "mode a \<noteq> ''train''" "mode a = ''eval''"
    | "mode a \<noteq> ''train''" "mode a \<noteq> ''eval''" by blast
  then show ?thesis
  proof cases
    case 1
    let ?m = "main_train E a (TrTransforms (TransformStats (model_type a)))
          (ValTsTransforms (TransformStats (model_type a)))
          (LRCN (rnn_hidden_size a) (rnn_n_layers a) (dropout a) (n_classes a)
                      (pretrained a) (cnn_backbone a))
          (if cuda_is_available E then Cuda0 else Cpu)"
    from 1 True have run: "main E a (start files) = ?m ?s3"
      by (simp add: main_unfold start_def Let_def)
    from nolist obtain new where "actions (snd (?m ?s3)) = actions ?s3 @ new"
      "list_all (\<lambda>x. x \<noteq> Call_listdir ''UCF50'') new"
      unfolding all_acts_def by blast
    with assms(1) run show ?thesis by (auto simp: list_all_iff)
  next
    case 2
    let ?m = "main_eval E a (ValTsTransforms (TransformStats (model_type a)))
          (LRCN (rnn_hidden_size a) (rnn_n_layers a) (dropout a) (n_classes a)
                      (pretrained a) (cnn_backbone a))
          (if cuda_is_available E then Cuda0 else Cpu)"
    from 2 True have run: "main E a (start files) = ?m ?s3"
      by (simp add: main_unfold start_def Let_def)
    show ?thesis unfolding run
      by (rule main_eval_accuracy [OF assms(1) [unfolded run] _ assms(2)]) simp
  next
    case 3
    with True assms(1) show ?thesis by (simp add: main_unfold start_def Let_def)
  qed
qed

text \<open>
  C8 (as amended).  \<open>main\<close> does not compare the label dictionary with the number
  of classes of the model: once \<open>os.listdir('UCF50')\<close> has returned, whatever it
  lists, the overall accuracy that \<open>test\<close> returned is printed; and an error that
  ends \<open>main\<close> is one raised by a call it made, or the missing or unreadable
  \<open>./splits.npy\<close>, or the \<open>ValueError\<close> for the mode: never a label mismatch
  found by \<open>main\<close> itself.
\<close>

theorem accuracy_reported_without_label_check:
  "(Call_listdir ''UCF50'' \<in> set (actions (snd (main E a (start files)))) \<longrightarrow>
    raises E (Call_listdir ''UCF50'') = None \<longrightarrow>
      (\<exists>dls targets outputs accuracy.
         test_returns E (LRCN (rnn_hidden_size a) (rnn_n_layers a) (dropout a) (n_classes a)
                      (pretrained a) (cnn_backbone a)) dls
             (if cuda_is_available E then Cuda0 else Cpu) = (targets, outputs, accuracy) \<and>
         Print_accuracy accuracy \<in> set (actions (snd (main E a (start files))))))
   \<and> (\<forall>e. fst (main E a (start files)) = Inl e \<longrightarrow>
         (\<exists>x. raises E x = Some e)
         \<or> (files ''./splits.npy'' = None \<and> e = OSError ''./splits.npy'')
         \<or> (\<exists>file. files ''./splits.npy'' = Some file \<and> test_split_of file = Inl e)
         \<or> (mode a \<noteq> ''train'' \<and> mode a \<noteq> ''eval'' \<and> e = ValueError mode_message))"
  using main_accuracy [of E a files] main_errors [of E a files] by blast

subsection \<open>run.py: the example runs\<close>

lemmas example_defs = example_args_def example_env_def start_def Let_def

lemma example_train_run:
  "main example_env (example_args ''train'') (start Map.empty) =
     (Inr (),
      \<lparr> actions =
          [Call_transform_stats ''lrcn'',
           Call_compose_data_transforms (TransformStats ''lrcn''),
           Call_LRCN (LRCN 100 1 (1 / 10) 2 (PyBool True) ''resnet34''),
           Call_load_dataset (Some ''frames''),
           Call_dataset_split [(''frames/Biking/v1'', 0), (''frames/Diving/v2'', 1),
                 (''frames/Biking/v3'', 0)] (7 / 10) (1 / 10),
           Call_np_save ''./splits.npy'' example_splits,
           Call_VideoDataset (VideoDataset [(''frames/Biking/v1'', 0)] 16
              (TrTransforms (TransformStats ''lrcn''))),
           Call_VideoDataset (VideoDataset [(''frames/Diving/v2'', 1)] 16
              (ValTsTransforms (TransformStats ''lrcn''))),
           Call_train_val_dloaders (TrainValDloaders
              (VideoDataset [(''frames/Biking/v1'', 0)] 16 (TrTransforms (TransformStats ''lrcn'')))
              (VideoDataset [(''frames/Diving/v2'', 1)] 16 (ValTsTransforms (TransformStats ''lrcn'')))
              8 ''lrcn''),
           Call_CrossEntropyLoss (CrossEntropyLoss ReductionSum),
           Call_Adam (Adam (LRCN 100 1 (1 / 10) 2 (PyBool True) ''resnet34'') (3 / 100000)),
           Call_ReduceLROnPlateau (ReduceLROnPlateau
              (Adam (LRCN 100 1 (1 / 10) 2 (PyBool True) ''resnet34'') (3 / 100000))
              ''min'' (1 / 2) 5 1),
           Call_makedirs ''./models'' True,
           Call_to (LRCN 100 1 (1 / 10) 2 (PyBool True) ''resnet34'') Cpu,
           Call_train (TrainValDloaders
              (VideoDataset [(''frames/Biking/v1'', 0)] 16 (TrTransforms (TransformStats ''lrcn'')))
              (VideoDataset [(''frames/Diving/v2'', 1)] 16 (ValTsTransforms (TransformStats ''lrcn'')))
              8 ''lrcn'')
             (LRCN 100 1 (1 / 10) 2 (PyBool True) ''resnet34'')
             (CrossEntropyLoss ReductionSum)
             (Adam (LRCN 100 1 (1 / 10) 2 (PyBool True) ''resnet34'') (3 / 100000))
             (ReduceLROnPlateau
              (Adam (LRCN 100 1 (1 / 10) 2 (PyBool True) ''resnet34'') (3 / 100000))
              ''min'' (1 / 2) 5 1)
             Cpu ''./models'' 30],
        npy_files = [''./splits.npy'' \<mapsto> example_splits] \<rparr>)"
  by (simp add: main_def main_train_def run_simps example_defs example_splits_def)

lemma example_test_split: "test_split_of example_splits = Inr [(''frames/Biking/v3'', 0)]"
  unfolding example_splits_def by (rule test_split_of_saved)

lemma example_eval_run:
  "main example_env (example_args ''eval'') (start [''./splits.npy'' \<mapsto> example_splits]) =
     (Inr (),
      \<lparr> actions =
          [Call_transform_stats ''lrcn'',
           Call_compose_data_transforms (TransformStats ''lrcn''),
           Call_LRCN (LRCN 100 1 (1 / 10) 2 (PyBool True) ''resnet34''),
           Call_np_load ''./splits.npy'',
           Call_VideoDataset (VideoDataset [(''frames/Biking/v3'', 0)] 16
              (ValTsTransforms (TransformStats ''lrcn''))),
           Call_test_dloaders (TestDloaders
              (VideoDataset [(''frames/Biking/v3'', 0)] 16 (ValTsTransforms (TransformStats ''lrcn'')))
              8 ''lrcn''),
           Call_torch_load (Some ''./models/weights.pt''),
           Call_load_state_dict (LRCN 100 1 (1 / 10) 2 (PyBool True) ''resnet34'')
              (Some ''./models/weights.pt''),
           Call_to (LRCN 100 1 (1 / 10) 2 (PyBool True) ''resnet34'') Cpu,
           Call_test (LRCN 100 1 (1 / 10) 2 (PyBool True) ''resnet34'')
             (TestDloaders
              (VideoDataset [(''frames/Biking/v3'', 0)] 16 (ValTsTransforms (TransformStats ''lrcn'')))
              8 ''lrcn'') Cpu,
           Call_listdir ''UCF50'',
           Print_accuracy 0,
           Call_get_test_report (TestReport [0] [1] [''Diving'', ''Biking'']),
           Print_line (CHR 0x0A # ''Classification Report:''),
           PPrint_report (TestReport [0] [1] [''Diving'', ''Biking'']),
           Call_get_confusion_matrix
             (ConfusionMatrix [0] [1] (labels_dict_of [''Diving'', ''Biking''])
                [''Diving'', ''Biking'']),
           Print_line (CHR 0x0A # ''Confusion Matrix:''),
           PPrint_confusion_matrix
             (ConfusionMatrix [0] [1] (labels_dict_of [''Diving'', ''Biking''])
                [''Diving'', ''Biking''])],
        npy_files = [''./splits.npy'' \<mapsto> example_splits] \<rparr>)"
  by (simp add: main_def main_eval_def run_simps example_defs example_test_split)

lemma mismatch_eval_run:
  "main mismatch_env (example_args ''eval'') (start [''./splits.npy'' \<mapsto> example_splits]) =
     (Inl (Raised ''LabelMismatchError''),
      \<lparr> actions =
          [Call_transform_stats ''lrcn'',
           Call_compose_data_transforms (TransformStats ''lrcn''),
           Call_LRCN (LRCN 100 1 (1 / 10) 2 (PyBool True) ''resnet34''),
           Call_np_load ''./splits.npy'',
           Call_VideoDataset (VideoDataset [(''frames/Biking/v3'', 0)] 16
              (ValTsTransforms (TransformStats ''lrcn''))),
           Call_test_dloaders (TestDloaders
              (VideoDataset [(''frames/Biking/v3'', 0)] 16 (ValTsTransforms (TransformStats ''lrcn'')))
              8 ''lrcn''),
           Call_torch_load (Some ''./models/weights.pt''),
           Call_load_state_dict (LRCN 100 1 (1 / 10) 2 (PyBool True) ''resnet34'')
              (Some ''./models/weights.pt''),
           Call_to (LRCN 100 1 (1 / 10) 2 (PyBool True) ''resnet34'') Cpu,
           Call_test (LRCN 100 1 (1 / 10) 2 (PyBool True) ''resnet34'')
             (TestDloaders
              (VideoDataset [(''frames/Biking/v3'', 0)] 16 (ValTsTransforms (TransformStats ''lrcn'')))
              8 ''lrcn'') Cpu,
           Call_listdir ''UCF50'',
           Print_accuracy 0,
           Call_get_test_report (TestReport [0] [1] [''Biking'', ''Diving'', ''Rowing''])],
        npy_files = [''./splits.npy'' \<mapsto> example_splits] \<rparr>)"
  by (simp add: main_def main_eval_def run_simps example_defs example_test_split mismatch_env_def)

lemma example_labels:
  "labels_dict_of [''Diving'', ''Biking''] ''Biking'' = Some 1"
  "labels_dict_of [''Diving'', ''Biking''] ''Diving'' = Some 0"
  by (simp_all add: labels_dict_of_def enumerate_eq_zip)

theorem eval_labels_not_the_training_labels:
  "snd (load_dataset_returns example_env (frame_dir (example_args ''train''))) ''Biking'' = Some 0
   \<and> npy_files (snd (main example_env (example_args ''train'') (start Map.empty)))
       = [''./splits.npy'' \<mapsto> example_splits]
   \<and> Call_get_confusion_matrix
        (ConfusionMatrix [0] [1] (labels_dict_of [''Diving'', ''Biking'']) [''Diving'', ''Biking''])
       \<in> set (actions (snd (main example_env (example_args ''eval'')
                               (start [''./splits.npy'' \<mapsto> example_splits]))))
   \<and> labels_dict_of [''Diving'', ''Biking''] ''Biking'' = Some 1"
  by (simp add: example_train_run example_eval_run example_labels)
     (simp add: example_defs)

theorem eval_labels_from_listing_witness:
  "Call_get_confusion_matrix
        (ConfusionMatrix [0] [1] (labels_dict_of [''Diving'', ''Biking'']) [''Diving'', ''Biking''])
       \<in> set (actions (snd (main example_env (example_args ''eval'')
                               (start [''./splits.npy'' \<mapsto> example_splits]))))
   \<and> distinct (listdir_returns example_env ''UCF50'')
   \<and> dom (labels_dict_of (listdir_returns example_env ''UCF50'')) = {''Diving'', ''Biking''}
   \<and> labels_dict_of (listdir_returns example_env ''UCF50'')
         (listdir_returns example_env ''UCF50'' ! 1) = Some 1"
proof -
  have l: "listdir_returns example_env ''UCF50'' = [''Diving'', ''Biking'']"
    by (simp add: example_env_def)
  have d: "distinct (listdir_returns example_env ''UCF50'')" unfolding l by simp
  have m: "Call_get_confusion_matrix
        (ConfusionMatrix [0] [1] (labels_dict_of [''Diving'', ''Biking'']) [''Diving'', ''Biking''])
       \<in> set (actions (snd (main example_env (example_args ''eval'')
                               (start [''./splits.npy'' \<mapsto> example_splits]))))"
    by (simp add: example_eval_run)
  from eval_labels_from_listing [of example_env "example_args ''eval''"
         "[''./splits.npy'' \<mapsto> example_splits]"] d
  have dm: "dom (labels_dict_of (listdir_returns example_env ''UCF50''))
          = set (listdir_returns example_env ''UCF50'')"
    and ix: "\<forall>i < length (listdir_returns example_env ''UCF50'').
           labels_dict_of (listdir_returns example_env ''UCF50'')
             (listdir_returns example_env ''UCF50'' ! i) = Some i"
    by blast+
  have "(1::nat) < length (listdir_returns example_env ''UCF50'')" unfolding l by simp
  with ix have "labels_dict_of (listdir_returns example_env ''UCF50'')
         (listdir_returns example_env ''UCF50'' ! 1) = Some 1" by blast
  moreover from dm have
    "dom (labels_dict_of (listdir_returns example_env ''UCF50'')) = {''Diving'', ''Biking''}"
    unfolding l by simp
  ultimately have "dom (labels_dict_of (listdir_returns example_env ''UCF50'')) = {''Diving'', ''Biking''}"
    and "labels_dict_of (listdir_returns example_env ''UCF50'')
         (listdir_returns example_env ''UCF50'' ! 1) = Some 1"
    by blast+
  with m d show ?thesis by blast
qed

theorem accuracy_reported_despite_mismatch:
  "length (listdir_returns mismatch_env ''UCF50'') = 3
   \<and> n_classes (example_args ''eval'') = 2
   \<and> fst (main mismatch_env (example_args ''eval'') (start [''./splits.npy'' \<mapsto> example_splits]))
       = Inl (Raised ''LabelMismatchError'')
   \<and> Print_accuracy 0
       \<in> set (actions (snd (main mismatch_env (example_args ''eval'')
                               (start [''./splits.npy'' \<mapsto> example_splits]))))"
  by (simp add: mismatch_eval_run) (simp add: mismatch_env_def example_defs)

theorem accuracy_reported_without_label_check_witness:
  "Call_listdir ''UCF50''
       \<in> set (actions (snd (main mismatch_env (example_args ''eval'')
                               (start [''./splits.npy'' \<mapsto> example_splits]))))
   \<and> raises mismatch_env (Call_listdir ''UCF50'') = None
   \<and> (\<exists>accuracy. Print_accuracy accuracy
       \<in> set (actions (snd (main mismatch_env (example_args ''eval'')
                               (start [''./splits.npy'' \<mapsto> example_splits])))))"
proof -
  have 1: "Call_listdir ''UCF50''
       \<in> set (actions (snd (main mismatch_env (example_args ''eval'')
                               (start [''./splits.npy'' \<mapsto> example_splits]))))"
    by (simp add: mismatch_eval_run)
  have 2: "raises mismatch_env (Call_listdir ''UCF50'') = None"
    by (simp add: mismatch_env_def)
  from accuracy_reported_without_label_check [of mismatch_env "example_args ''eval''"
         "[''./splits.npy'' \<mapsto> example_splits]"] 1 2
  have "\<exists>accuracy. Print_accuracy accuracy
       \<in> set (actions (snd (main mismatch_env (example_args ''eval'')
                               (start [''./splits.npy'' \<mapsto> example_splits]))))"
    by blast
  with 1 2 show ?thesis by blast
qed

lemma example_command_line:
  "args_parser (\<lambda>s. None)
     [Given ''n_classes'' ''2'', Given ''mode'' ''predict'', Given ''batch_size'' ''8''] =
     Inr \<lparr> frame_dir = None, train_size = 7 / 10, test_size = 1 / 10,
       fr_per_vid = 16, n_classes = 2, ckpt = None,
       model_type = ''lrcn'', cnn_backbone = ''resnet34'', pretrained = PyBool True,
       rnn_hidden_size = 100, rnn_n_layers = 1, mode = ''predict'', batch_size = 8,
       dropout = 1 / 10, learning_rate = 3 / 100000, n_epochs = 30 \<rparr>"
  by (simp add: args_parser_def value_ok_def int_dests_def
        float_dests_def required_dests_def given_str_def given_int_def given_float_def
        py_int_def py_strip_def is_space_def unsigned_int_def is_digit_def digits_val_def
        digit_val_def)

theorem model_built_before_mode_error:
  "script example_env (\<lambda>s. None)
     [Given ''n_classes'' ''2'', Given ''mode'' ''predict'', Given ''batch_size'' ''8'']
     Map.empty =
     (Inl (ValueError mode_message),
      \<lparr> actions =
          [Call_transform_stats ''lrcn'',
           Call_compose_data_transforms (TransformStats ''lrcn''),
           Call_LRCN (LRCN 100 1 (1 / 10) 2 (PyBool True) ''resnet34'')],
        npy_files = Map.empty \<rparr>)"
  by (simp add: script_def example_command_line main_def run_simps example_env_def start_def)

theorem invalid_mode_and_missing_options_witness:
  "main example_env (example_args ''predict'') (start Map.empty) =
     (Inl (ValueError mode_message),
      \<lparr> actions =
          [Call_transform_stats ''lrcn'',
           Call_compose_data_transforms (TransformStats ''lrcn''),
           Call_LRCN (LRCN 100 1 (1 / 10) 2 (PyBool True) ''resnet34'')],
        npy_files = Map.empty \<rparr>)
   \<and> (\<exists>code. script example_env (\<lambda>s. None)
           [Given ''mode'' ''train'', Given ''n_classes'' ''2''] Map.empty =
         (Inl (SystemExit code), start Map.empty))"
proof -
  let ?a = "example_args ''predict''"
  note T = invalid_mode_and_missing_options [of ?a example_env Map.empty
             "[Given ''mode'' ''train'', Given ''n_classes'' ''2'']" "\<lambda>s. None"]
  have md: "mode ?a \<noteq> ''train'' \<and> mode ?a \<noteq> ''eval''" by (simp add: example_args_def)
  have quiet: "raises example_env (Call_transform_stats (model_type ?a)) = None
           \<and> raises example_env (Call_compose_data_transforms (TransformStats (model_type ?a))) = None
           \<and> raises example_env (Call_LRCN (LRCN (rnn_hidden_size ?a) (rnn_n_layers ?a) (dropout ?a)
                             (n_classes ?a) (pretrained ?a) (cnn_backbone ?a))) = None"
    by (simp add: example_env_def)
  have missing: "\<exists>dest \<in> set required_dests.
          \<forall>v. Given dest v \<notin> set [Given ''mode'' ''train'', Given ''n_classes'' ''2'']"
    by (rule bexI [of _ "''batch_size''"]) (simp_all add: required_dests_def)
  from T md quiet have "main example_env ?a (start Map.empty) =
                 (Inl (ValueError mode_message),
                  \<lparr> actions =
                      [Call_transform_stats (model_type ?a),
                       Call_compose_data_transforms (TransformStats (model_type ?a)),
                       Call_LRCN (LRCN (rnn_hidden_size ?a) (rnn_n_layers ?a) (dropout ?a)
                                    (n_classes ?a) (pretrained ?a) (cnn_backbone ?a))],
                     npy_files = Map.empty \<rparr>)"
    by blast
  moreover from T missing
  have "\<exists>code. script example_env (\<lambda>s. None)
           [Given ''mode'' ''train'', Given ''n_classes'' ''2''] Map.empty =
         (Inl (SystemExit code), start Map.empty)" by blast
  ultimately show ?thesis by (simp add: example_args_def)
qed


theorem lrcn_whatever_model_type_witness:
  "take 3 (actions (snd (main example_env ((example_args ''train'')\<lparr>model_type := ''3dcnn''\<rparr>)
                          (start Map.empty)))) =
     [Call_transform_stats ''3dcnn'',
      Call_compose_data_transforms (TransformStats ''3dcnn''),
      Call_LRCN (LRCN 100 1 (1 / 10) 2 (PyBool True) ''resnet34'')]
   \<and> fst (main example_env ((example_args ''train'')\<lparr>model_type := ''3dcnn''\<rparr>) (start Map.empty))
       = fst (main example_env (example_args ''train'') (start Map.empty))
   \<and> npy_files (snd (main example_env ((example_args ''train'')\<lparr>model_type := ''3dcnn''\<rparr>)
                          (start Map.empty)))
       = npy_files (snd (main example_env (example_args ''train'') (start Map.empty)))"
proof -
  let ?a = "example_args ''train''"
  let ?b = "(example_args ''train'')\<lparr>model_type := ''3dcnn''\<rparr>"
  have q: "raises example_env (Call_transform_stats (model_type ?b)) = None"
    "raises example_env (Call_compose_data_transforms (TransformStats (model_type ?b))) = None"
    by (simp_all add: example_env_def)
  from lrcn_whatever_model_type [of example_env ?b Map.empty "''3dcnn''"] q
  have "take 3 (actions (snd (main example_env ?b (start Map.empty)))) =
        [Call_transform_stats (model_type ?b),
         Call_compose_data_transforms (TransformStats (model_type ?b)),
         Call_LRCN (LRCN (rnn_hidden_size ?b) (rnn_n_layers ?b) (dropout ?b) (n_classes ?b)
                      (pretrained ?b) (cnn_backbone ?b))]"
    by blast
  then have first: "take 3 (actions (snd (main example_env ?b (start Map.empty)))) =
     [Call_transform_stats ''3dcnn'',
      Call_compose_data_transforms (TransformStats ''3dcnn''),
      Call_LRCN (LRCN 100 1 (1 / 10) 2 (PyBool True) ''resnet34'')]"
    by (simp add: example_args_def)
  have r: "\<exists>r. raises example_env = r \<circ> blank_action"
    by (rule exI [of _ "\<lambda>x. None"]) (simp add: example_env_def fun_eq_iff)
  have t: "\<exists>t. test_returns example_env = (\<lambda>m dls dev. t m (blank_dataloaders dls) dev)"
    by (rule exI [of _ "\<lambda>m dls dev. ([0], [1], 0)"]) (simp add: example_env_def)
  from lrcn_whatever_model_type [of example_env ?a Map.empty "''3dcnn''"] r t
  have "fst (main example_env ?b (start Map.empty)) = fst (main example_env ?a (start Map.empty))"
    and "npy_files (snd (main example_env ?b (start Map.empty))) =
            npy_files (snd (main example_env ?a (start Map.empty)))"
    by blast+
  with first show ?thesis by blast
qed

subsection \<open>Dataset Splitter\<close>

lemma mset_shuffle: "mset (shuffle draws S) = mset S"
proof (induction draws S rule: shuffle.induct)
  case (3 r draws x xs)
  let ?l = "x # xs"
  let ?i = "r mod length ?l"
  have i: "?i < length ?l" by simp
  have "mset ?l = mset (take ?i ?l @ ?l ! ?i # drop (Suc ?i) ?l)"
    using id_take_nth_drop [OF i] by simp
  then have "mset ?l = add_mset (?l ! ?i) (mset (take ?i ?l @ drop (Suc ?i) ?l))" by simp
  with "3.IH" [of ?i] show ?case by (simp add: Let_def)
qed simp_all

lemma three_parts: "take a xs @ take b (drop a xs) @ drop (a + b) xs = xs"
proof -
  have "take b (drop a xs) @ drop b (drop a xs) = drop a xs" by (rule append_take_drop_id)
  moreover have "drop b (drop a xs) = drop (a + b) xs" by (simp add: add.commute)
  ultimately have "take b (drop a xs) @ drop (a + b) xs = drop a xs" by simp
  then have "take a xs @ take b (drop a xs) @ drop (a + b) xs = take a xs @ drop a xs"
    by simp
  then show ?thesis by (simp only: append_take_drop_id)
qed

lemma floor_shares:
  assumes "0 \<le> (a::real)" "0 \<le> b" "a + b \<le> 1"
  shows "nat \<lfloor>a * real n\<rfloor> + nat \<lfloor>b * real n\<rfloor> \<le> n"
proof -
  have "\<lfloor>a * real n\<rfloor> + \<lfloor>b * real n\<rfloor> \<le> \<lfloor>a * real n + b * real n\<rfloor>"
    by (rule le_floor_add)
  also have "a * real n + b * real n = (a + b) * real n" by (simp add: algebra_simps)
  also have "\<lfloor>(a + b) * real n\<rfloor> \<le> \<lfloor>real n\<rfloor>"
  proof (rule floor_mono)
    have "(a + b) * real n \<le> 1 * real n"
      using assms(3) by (intro mult_right_mono) simp_all
    then show "(a + b) * real n \<le> real n" by simp
  qed
  finally have "\<lfloor>a * real n\<rfloor> + \<lfloor>b * real n\<rfloor> \<le> int n" by simp
  moreover have "0 \<le> \<lfloor>a * real n\<rfloor>" "0 \<le> \<lfloor>b * real n\<rfloor>" using assms(1,2) by simp_all
  ultimately show ?thesis by linarith
qed

lemma dataset_split_result:
  assumes "0 \<le> tr" "0 \<le> ts" "tr + ts \<le> 1" and "0 < nat \<lfloor>tr * real (length S)\<rfloor>"
  shows "\<exists>train val test.
           dataset_split draws S tr ts = Inr (train, val, test) \<and>
           train @ test @ val = shuffle draws S \<and>
           length train = nat \<lfloor>tr * real (length S)\<rfloor> \<and>
           length test = nat \<lfloor>ts * real (length S)\<rfloor> \<and>
           length val = length S - nat \<lfloor>tr * real (length S)\<rfloor> - nat \<lfloor>ts * real (length S)\<rfloor>"
proof -
  let ?n = "length S"
  let ?a = "nat \<lfloor>tr * real ?n\<rfloor>"
  let ?b = "nat \<lfloor>ts * real ?n\<rfloor>"
  let ?sh = "shuffle draws S"
  have len: "length ?sh = ?n" using mset_shuffle [of draws S] by (metis size_mset)
  have le: "?a + ?b \<le> ?n" using floor_shares [OF assms(1-3)] .
  have ne: "take ?a ?sh \<noteq> []" using assms(4) le len by auto
  have "dataset_split draws S tr ts = Inr (take ?a ?sh, drop (?a + ?b) ?sh, take ?b (drop ?a ?sh))"
    using assms(1-3) ne by (simp add: dataset_split_def Let_def)
  moreover have "take ?a ?sh @ take ?b (drop ?a ?sh) @ drop (?a + ?b) ?sh = ?sh"
    by (rule three_parts)
  moreover have "length (take ?a ?sh) = ?a" "length (take ?b (drop ?a ?sh)) = ?b"
    "length (drop (?a + ?b) ?sh) = ?n - ?a - ?b"
    using le len by simp_all
  ultimately show ?thesis by blast
qed

lemma dataset_split_general:
  assumes "0 < tr" "tr < 1" "0 < ts" "ts < 1" "tr + ts \<le> 1"
  shows "(nat \<lfloor>tr * real (length S)\<rfloor> = 0 \<longrightarrow>
            dataset_split draws S tr ts = Inl InvalidProportionError)
       \<and> (0 < nat \<lfloor>tr * real (length S)\<rfloor> \<longrightarrow>
            (\<exists>train val test.
               dataset_split draws S tr ts = Inr (train, val, test) \<and>
               mset train + mset val + mset test = mset S \<and>
               set train \<union> set val \<union> set test = set S \<and>
               length train = nat \<lfloor>tr * real (length S)\<rfloor> \<and>
               length test = nat \<lfloor>ts * real (length S)\<rfloor> \<and>
               length train + length val + length test = length S \<and>
               (distinct S \<longrightarrow>
                  set train \<inter> set val = {} \<and> set train \<inter> set test = {} \<and>
                  set val \<inter> set test = {})))"
proof (intro conjI impI)
  assume "nat \<lfloor>tr * real (length S)\<rfloor> = 0"
  then show "dataset_split draws S tr ts = Inl InvalidProportionError"
    using assms by (simp add: dataset_split_def Let_def)
next
  assume pos: "0 < nat \<lfloor>tr * real (length S)\<rfloor>"
  from dataset_split_result [of tr ts S draws] assms pos obtain train val test where
    r: "dataset_split draws S tr ts = Inr (train, val, test)"
       "train @ test @ val = shuffle draws S"
       "length train = nat \<lfloor>tr * real (length S)\<rfloor>"
       "length test = nat \<lfloor>ts * real (length S)\<rfloor>"
    by (metis less_eq_real_def)
  from r(2) have m: "mset train + mset val + mset test = mset S"
    using mset_shuffle [of draws S] by (metis add.assoc add.commute mset_append)
  then have s: "set train \<union> set val \<union> set test = set S"
    by (metis set_mset_mset set_mset_union)
  from m have l: "length train + length val + length test = length S"
    by (metis size_mset size_union)
  have d: "set train \<inter> set val = {} \<and> set train \<inter> set test = {} \<and> set val \<inter> set test = {}"
    if "distinct S"
  proof -
    from that have "distinct (shuffle draws S)"
      using mset_shuffle [of draws S] by (metis distinct_count_atmost_1 count_mset_0_iff mset_eq_imp_distinct_iff)
    with r(2) have "distinct (train @ test @ val)" by simp
    then show ?thesis by auto
  qed
  from r(1,3,4) m s l d show "\<exists>train val test.
               dataset_split draws S tr ts = Inr (train, val, test) \<and>
               mset train + mset val + mset test = mset S \<and>
               set train \<union> set val \<union> set test = set S \<and>
               length train = nat \<lfloor>tr * real (length S)\<rfloor> \<and>
               length test = nat \<lfloor>ts * real (length S)\<rfloor> \<and>
               length train + length val + length test = length S \<and>
               (distinct S \<longrightarrow>
                  set train \<inter> set val = {} \<and> set train \<inter> set test = {} \<and>
                  set val \<inter> set test = {})" by blast
qed


text \<open>
  C2 (as amended).  For a valid pair of proportions (both strictly between 0 and 1,
  together at most 1): when the training share of the list, the whole part of
  \<open>train_size\<close> times its length, is zero, \<open>dataset_split\<close> fails with
  \<open>InvalidProportionError\<close>; otherwise it returns three lists that hold every
  occurrence of every sample of \<open>S\<close> exactly once between them (none dropped, none
  duplicated), whose union as sets is \<open>S\<close>, and which are pairwise disjoint when
  \<open>S\<close> has no repeated sample.  For 100 samples with the proportions 0.7 and 0.1 it
  returns 70 training, 10 test and 20 validation samples, without overlap.
\<close>

theorem dataset_split_partition:
  "(0 < tr \<and> tr < 1 \<and> 0 < ts \<and> ts < 1 \<and> tr + ts \<le> 1 \<longrightarrow>
     (nat \<lfloor>tr * real (length S)\<rfloor> = 0 \<longrightarrow>
            dataset_split draws S tr ts = Inl InvalidProportionError)
     \<and> (0 < nat \<lfloor>tr * real (length S)\<rfloor> \<longrightarrow>
            (\<exists>train val test.
               dataset_split draws S tr ts = Inr (train, val, test) \<and>
               mset train + mset val + mset test = mset S \<and>
               set train \<union> set val \<union> set test = set S \<and>
               length train = nat \<lfloor>tr * real (length S)\<rfloor> \<and>
               length test = nat \<lfloor>ts * real (length S)\<rfloor> \<and>
               length train + length val + length test = length S \<and>
               (distinct S \<longrightarrow>
                  set train \<inter> set val = {} \<and> set train \<inter> set test = {} \<and>
                  set val \<inter> set test = {}))))
   \<and> (length S = 100 \<longrightarrow>
        (\<exists>train val test.
           dataset_split draws S (7 / 10) (1 / 10) = Inr (train, val, test) \<and>
           length train = 70 \<and> length test = 10 \<and> length val = 20 \<and>
           mset train + mset val + mset test = mset S \<and>
           (distinct S \<longrightarrow>
              set train \<inter> set val = {} \<and> set train \<inter> set test = {} \<and>
              set val \<inter> set test = {})))"
proof (intro conjI)
  show "0 < tr \<and> tr < 1 \<and> 0 < ts \<and> ts < 1 \<and> tr + ts \<le> 1 \<longrightarrow>
     (nat \<lfloor>tr * real (length S)\<rfloor> = 0 \<longrightarrow>
            dataset_split draws S tr ts = Inl InvalidProportionError)
     \<and> (0 < nat \<lfloor>tr * real (length S)\<rfloor> \<longrightarrow>
            (\<exists>train val test.
               dataset_split draws S tr ts = Inr (train, val, test) \<and>
               mset train + mset val + mset test = mset S \<and>
               set train \<union> set val \<union> set test = set S \<and>
               length train = nat \<lfloor>tr * real (length S)\<rfloor> \<and>
               length test = nat \<lfloor>ts * real (length S)\<rfloor> \<and>
               length train + length val + length test = length S \<and>
               (distinct S \<longrightarrow>
                  set train \<inter> set val = {} \<and> set train \<inter> set test = {} \<and>
                  set val \<inter> set test = {})))"
    using dataset_split_general [of tr ts S draws] by blast
next
  show "length S = 100 \<longrightarrow>
        (\<exists>train val test.
           dataset_split draws S (7 / 10) (1 / 10) = Inr (train, val, test) \<and>
           length train = 70 \<and> length test = 10 \<and> length val = 20 \<and>
           mset train + mset val + mset test = mset S \<and>
           (distinct S \<longrightarrow>
              set train \<inter> set val = {} \<and> set train \<inter> set test = {} \<and>
              set val \<inter> set test = {}))"
  proof
    assume n: "length S = 100"
    have a: "nat \<lfloor>7 / 10 * real (length S)\<rfloor> = 70" and b: "nat \<lfloor>1 / 10 * real (length S)\<rfloor> = 10"
      unfolding n by simp_all
    have "(0::real) < 7 / 10" "(7::real) / 10 < 1" "(0::real) < 1 / 10" "(1::real) / 10 < 1"
      "(7::real) / 10 + 1 / 10 \<le> 1" by simp_all
    from dataset_split_general [OF this, of S draws] a obtain train val test where
      r: "dataset_split draws S (7 / 10) (1 / 10) = Inr (train, val, test)"
         "mset train + mset val + mset test = mset S"
         "length train = nat \<lfloor>7 / 10 * real (length S)\<rfloor>"
         "length test = nat \<lfloor>1 / 10 * real (length S)\<rfloor>"
         "length train + length val + length test = length S"
         "distinct S \<longrightarrow>
              set train \<inter> set val = {} \<and> set train \<inter> set test = {} \<and>
              set val \<inter> set test = {}"
      by auto
    from r(3,4,5) a b n have "length train = 70" "length test = 10" "length val = 20" by simp_all
    with r(1,2,6) show "\<exists>train val test.
           dataset_split draws S (7 / 10) (1 / 10) = Inr (train, val, test) \<and>
           length train = 70 \<and> length test = 10 \<and> length val = 20 \<and>
           mset train + mset val + mset test = mset S \<and>
           (distinct S \<longrightarrow>
              set train \<inter> set val = {} \<and> set train \<inter> set test = {} \<and>
              set val \<inter> set test = {})" by blast
  qed
qed

theorem dataset_split_empty_list:
  "dataset_split [] ([] :: sample list) (7 / 10) (1 / 10) = Inl InvalidProportionError"
  by (simp add: dataset_split_def)

theorem dataset_split_partition_witness:
  "(0::real) < 7 / 10 \<and> (7::real) / 10 < 1 \<and> (0::real) < 1 / 10 \<and> (1::real) / 10 < 1
   \<and> (7::real) / 10 + 1 / 10 \<le> 1
   \<and> 0 < nat \<lfloor>7 / 10 * real (length example_samples)\<rfloor>
   \<and> distinct example_samples
   \<and> (\<exists>train val test.
         dataset_split [2, 0, 1] example_samples (7 / 10) (1 / 10) = Inr (train, val, test) \<and>
         length train = 2 \<and> length test = 0 \<and>
         mset train + mset val + mset test = mset example_samples \<and>
         set train \<inter> set val = {})"
proof -
  have h: "(0::real) < 7 / 10 \<and> (7::real) / 10 < 1 \<and> (0::real) < 1 / 10 \<and> (1::real) / 10 < 1
   \<and> (7::real) / 10 + 1 / 10 \<le> 1" by simp
  have a: "nat \<lfloor>7 / 10 * real (length example_samples)\<rfloor> = 2"
    and b: "nat \<lfloor>1 / 10 * real (length example_samples)\<rfloor> = 0"
    by (simp_all add: example_samples_def)
  have d: "distinct example_samples" by (simp add: example_samples_def)
  from dataset_split_partition [of "7 / 10" "1 / 10" example_samples "[2, 0, 1]"] h a d
  obtain train val test where
    "dataset_split [2, 0, 1] example_samples (7 / 10) (1 / 10) = Inr (train, val, test)"
    "mset train + mset val + mset test = mset example_samples"
    "length train = nat \<lfloor>7 / 10 * real (length example_samples)\<rfloor>"
    "length test = nat \<lfloor>1 / 10 * real (length example_samples)\<rfloor>"
    "set train \<inter> set val = {}"
    by auto
  with a b h d show ?thesis by auto
qed

subsection \<open>Training Loop\<close>

lemma epochs_Suc:
  "epochs L tr va (Suc k) st = epoch L tr va (epochs L tr va k st)"
  by (induction k arbitrary: st) simp_all

lemma epoch_params:
  "params (epoch L tr va st) = fst (train_phase L (sched st) (params st) tr)"
  by (simp add: epoch_def Let_def split: prod.splits)

lemma epoch_fields:
  "\<exists>m. history (epoch L tr va st) = history st @ [m] \<and>
       val_loss m = fst (val_phase L (fst (train_phase L (sched st) (params st) tr)) va) \<and>
       train_loss m = fst (snd (train_phase L (sched st) (params st) tr)) \<and>
       best_loss (epoch L tr va st) =
         (if (case best_loss st of None \<Rightarrow> True | Some b \<Rightarrow> val_loss m < b)
          then Some (val_loss m) else best_loss st) \<and>
       checkpoint (epoch L tr va st) =
         (if (case best_loss st of None \<Rightarrow> True | Some b \<Rightarrow> val_loss m < b)
          then Some (params (epoch L tr va st)) else checkpoint st)"
proof -
  obtain p' tl ta where t: "train_phase L (sched st) (params st) tr = (p', tl, ta)"
    by (cases "train_phase L (sched st) (params st) tr") auto
  obtain vl vacc where v: "val_phase L p' va = (vl, vacc)" by (cases "val_phase L p' va")
  let ?m = "\<lparr> train_loss = tl, val_loss = vl, train_acc = ta, val_acc = vacc \<rparr>"
  show ?thesis
    by (rule exI [of _ ?m]) (cases "best_loss st"; simp add: epoch_def Let_def t v)
qed

text \<open>The state after \<open>j\<close> epochs of a run that starts fresh.\<close>

lemma train_nat: "train L tr va p sch (int j) =
    epochs L tr va j \<lparr> params = p, sched = sch, best_loss = None, checkpoint = None, history = [] \<rparr>"
  by (simp add: train_def)

lemma train_step:
  "train L tr va p sch (int (Suc j)) = epoch L tr va (train L tr va p sch (int j))"
  unfolding train_nat by (rule epochs_Suc)

lemma train_invariant:
  fixes L :: "('p, 'x, 's) learner"
  defines "st \<equiv> \<lambda>tr va p sch j. train L tr va p sch (int j)"
  shows "length (history (st tr va p sch j)) = j
       \<and> (j = 0 \<longrightarrow> best_loss (st tr va p sch j) = None \<and> checkpoint (st tr va p sch j) = None)
       \<and> (0 < j \<longrightarrow>
            (\<exists>k < j. best_loss (st tr va p sch j) = Some (val_loss (history (st tr va p sch j) ! k))
               \<and> checkpoint (st tr va p sch j) = Some (params (st tr va p sch (Suc k)))
               \<and> (\<forall>i < j. val_loss (history (st tr va p sch j) ! k)
                             \<le> val_loss (history (st tr va p sch j) ! i))
               \<and> (\<forall>i < k. val_loss (history (st tr va p sch j) ! k)
                             < val_loss (history (st tr va p sch j) ! i))))"
proof (induction j)
  case 0
  show ?case by (simp add: st_def train_def)
next
  case (Suc j)
  let ?s = "st tr va p sch j"
  let ?s' = "st tr va p sch (Suc j)"
  have step: "?s' = epoch L tr va ?s" unfolding st_def by (rule train_step)
  from epoch_fields [of L tr va ?s] obtain m where
    m: "history ?s' = history ?s @ [m]"
       "best_loss ?s' = (if (case best_loss ?s of None \<Rightarrow> True | Some b \<Rightarrow> val_loss m < b)
          then Some (val_loss m) else best_loss ?s)"
       "checkpoint ?s' = (if (case best_loss ?s of None \<Rightarrow> True | Some b \<Rightarrow> val_loss m < b)
          then Some (params ?s') else checkpoint ?s)"
    unfolding step by blast
  from Suc.IH have len: "length (history ?s) = j" by blast
  have old: "history ?s' ! i = history ?s ! i" if "i < j" for i
    using that len m(1) by (simp add: nth_append)
  have new: "history ?s' ! j = m" using len m(1) by (simp add: nth_append)
  have len': "length (history ?s') = Suc j" using len m(1) by simp
  have "\<exists>k < Suc j. best_loss ?s' = Some (val_loss (history ?s' ! k))
               \<and> checkpoint ?s' = Some (params (st tr va p sch (Suc k)))
               \<and> (\<forall>i < Suc j. val_loss (history ?s' ! k) \<le> val_loss (history ?s' ! i))
               \<and> (\<forall>i < k. val_loss (history ?s' ! k) < val_loss (history ?s' ! i))"
  proof (cases "j = 0")
    case True
    with Suc.IH have "best_loss ?s = None" by blast
    with m new True show ?thesis by (intro exI [of _ 0]) simp
  next
    case False
    with Suc.IH obtain k where
      k: "k < j" "best_loss ?s = Some (val_loss (history ?s ! k))"
         "checkpoint ?s = Some (params (st tr va p sch (Suc k)))"
         "\<forall>i < j. val_loss (history ?s ! k) \<le> val_loss (history ?s ! i)"
         "\<forall>i < k. val_loss (history ?s ! k) < val_loss (history ?s ! i)"
      by blast
    show ?thesis
    proof (cases "val_loss m < val_loss (history ?s ! k)")
      case True
      have "\<forall>i < Suc j. val_loss m \<le> val_loss (history ?s' ! i)"
      proof (intro allI impI)
        fix i assume "i < Suc j"
        then consider "i < j" | "i = j" by linarith
        then show "val_loss m \<le> val_loss (history ?s' ! i)"
        proof cases
          case 1
          with k(4) True old [OF 1] show ?thesis by force
        next
          case 2
          with new show ?thesis by simp
        qed
      qed
      moreover have "\<forall>i < j. val_loss m < val_loss (history ?s' ! i)"
      proof (intro allI impI)
        fix i assume i: "i < j"
        with k(4) True old [OF i] show "val_loss m < val_loss (history ?s' ! i)" by force
      qed
      ultimately show ?thesis
        using True k(2) m(2,3) new by (intro exI [of _ j]) simp
    next
      case False
      have "\<forall>i < Suc j. val_loss (history ?s ! k) \<le> val_loss (history ?s' ! i)"
      proof (intro allI impI)
        fix i assume "i < Suc j"
        then consider "i < j" | "i = j" by linarith
        then show "val_loss (history ?s ! k) \<le> val_loss (history ?s' ! i)"
        proof cases
          case 1
          with k(4) old [OF 1] show ?thesis by simp
        next
          case 2
          with new False show ?thesis by simp
        qed
      qed
      moreover have "\<forall>i < k. val_loss (history ?s ! k) < val_loss (history ?s' ! i)"
      proof (intro allI impI)
        fix i assume i: "i < k"
        with k(1) have "i < j" by simp
        from old [OF this] k(5) i show "val_loss (history ?s ! k) < val_loss (history ?s' ! i)"
          by simp
      qed
      ultimately show ?thesis
        using False k(1,2,3) m(2,3) old [OF k(1)] by (intro exI [of _ k]) simp
    qed
  qed
  with len' show ?case by simp
qed


lemma train_history_prefix:
  "j \<le> n \<Longrightarrow> take j (history (train L tr va p sch (int n))) = history (train L tr va p sch (int j))"
proof (induction n)
  case 0
  then show ?case by (simp add: train_def)
next
  case (Suc n)
  show ?case
  proof (cases "j = Suc n")
    case True
    with train_invariant [of L tr va p sch "Suc n"] show ?thesis by simp
  next
    case False
    with Suc.prems have le: "j \<le> n" by simp
    from epoch_fields [of L tr va "train L tr va p sch (int n)"] obtain m where
      "history (train L tr va p sch (int (Suc n))) = history (train L tr va p sch (int n)) @ [m]"
      unfolding train_step by blast
    moreover from train_invariant [of L tr va p sch n]
    have "length (history (train L tr va p sch (int n))) = n" by blast
    ultimately have "take j (history (train L tr va p sch (int (Suc n)))) =
                     take j (history (train L tr va p sch (int n)))"
      using le by simp
    with Suc.IH [OF le] show ?thesis by simp
  qed
qed

lemma train_history_nth:
  assumes "i < j" "j \<le> n"
  shows "history (train L tr va p sch (int j)) ! i = history (train L tr va p sch (int n)) ! i"
  using train_history_prefix [OF assms(2), of L tr va p sch, symmetric] assms(1) by simp

lemma checkpoint_step:
  fixes L :: "('p, 'x, 's) learner"
  assumes "j < n"
  shows "checkpoint (train L tr va p sch (int (Suc j))) =
           (if \<forall>i < j. val_loss (history (train L tr va p sch (int n)) ! j)
                          < val_loss (history (train L tr va p sch (int n)) ! i)
            then Some (params (train L tr va p sch (int (Suc j))))
            else checkpoint (train L tr va p sch (int j)))"
proof -
  let ?s = "train L tr va p sch (int j)"
  let ?s' = "train L tr va p sch (int (Suc j))"
  let ?H = "history (train L tr va p sch (int n))"
  from epoch_fields [of L tr va ?s] obtain m where
    m: "history ?s' = history ?s @ [m]"
       "checkpoint ?s' = (if (case best_loss ?s of None \<Rightarrow> True | Some b \<Rightarrow> val_loss m < b)
          then Some (params ?s') else checkpoint ?s)"
    unfolding train_step by blast
  note inv = train_invariant [of L tr va p sch j]
  from inv have len: "length (history ?s) = j" by blast
  from assms have sj: "Suc j \<le> n" by simp
  have "?H ! j = history ?s' ! j" using train_history_nth [OF _ sj, of j L tr va p sch] by simp
  with m(1) len have mj: "?H ! j = m" by (simp add: nth_append)
  have old: "?H ! i = history ?s ! i" if "i < j" for i
    using train_history_nth [OF that, of n L tr va p sch] assms by simp
  have "(case best_loss ?s of None \<Rightarrow> True | Some b \<Rightarrow> val_loss m < b) \<longleftrightarrow>
        (\<forall>i < j. val_loss (?H ! j) < val_loss (?H ! i))"
  proof (cases "j = 0")
    case True
    with inv show ?thesis by simp
  next
    case False
    with inv obtain k where
      k: "k < j" "best_loss ?s = Some (val_loss (history ?s ! k))"
         "\<forall>i < j. val_loss (history ?s ! k) \<le> val_loss (history ?s ! i)"
      by blast
    show ?thesis
    proof
      assume "case best_loss ?s of None \<Rightarrow> True | Some b \<Rightarrow> val_loss m < b"
      with k(2) have lt: "val_loss m < val_loss (history ?s ! k)" by simp
      show "\<forall>i < j. val_loss (?H ! j) < val_loss (?H ! i)"
      proof (intro allI impI)
        fix i assume i: "i < j"
        with k(3) have "val_loss (history ?s ! k) \<le> val_loss (history ?s ! i)" by blast
        with lt show "val_loss (?H ! j) < val_loss (?H ! i)" unfolding mj old [OF i] by simp
      qed
    next
      assume "\<forall>i < j. val_loss (?H ! j) < val_loss (?H ! i)"
      with k(1) have "val_loss (?H ! j) < val_loss (?H ! k)" by blast
      then show "case best_loss ?s of None \<Rightarrow> True | Some b \<Rightarrow> val_loss m < b"
        unfolding mj old [OF k(1)] k(2) by simp
    qed
  qed
  with m(2) show ?thesis by simp
qed

text \<open>
  C5.  After a training run of \<open>n\<close> epochs the Metric History has \<open>n\<close> entries
  (none for \<open>n \<le> 0\<close>, and then no checkpoint either).  For \<open>n > 0\<close> the
  checkpoint holds the parameters as they were at the end of an epoch \<open>k\<close> whose
  validation loss is the least of the run, every earlier epoch having a strictly
  greater one.  And the checkpoint is overwritten at an epoch exactly when the
  validation loss of that epoch is strictly below those of all epochs before it.
\<close>

theorem best_checkpoint:
  fixes L :: "('p, 'x, 's) learner"
  shows "length (history (train L tr va p sch n)) = nat n
   \<and> (n \<le> 0 \<longrightarrow> checkpoint (train L tr va p sch n) = None)
   \<and> (0 < n \<longrightarrow>
        (\<exists>k < nat n.
           checkpoint (train L tr va p sch n) = Some (params (train L tr va p sch (int (Suc k))))
           \<and> (\<forall>i < nat n. val_loss (history (train L tr va p sch n) ! k)
                               \<le> val_loss (history (train L tr va p sch n) ! i))
           \<and> (\<forall>i < k. val_loss (history (train L tr va p sch n) ! k)
                           < val_loss (history (train L tr va p sch n) ! i))))
   \<and> (\<forall>j < nat n.
         checkpoint (train L tr va p sch (int (Suc j))) =
           (if \<forall>i < j. val_loss (history (train L tr va p sch n) ! j)
                          < val_loss (history (train L tr va p sch n) ! i)
            then Some (params (train L tr va p sch (int (Suc j))))
            else checkpoint (train L tr va p sch (int j))))"
proof -
  have n: "train L tr va p sch n = train L tr va p sch (int (nat n))"
    by (simp add: train_def)
  note inv = train_invariant [of L tr va p sch "nat n"]
  have 1: "length (history (train L tr va p sch n)) = nat n"
    using inv unfolding n [symmetric] by blast
  have 2: "n \<le> 0 \<longrightarrow> checkpoint (train L tr va p sch n) = None"
    using inv unfolding n [symmetric] by auto
  have 3: "0 < n \<longrightarrow>
        (\<exists>k < nat n.
           checkpoint (train L tr va p sch n) = Some (params (train L tr va p sch (int (Suc k))))
           \<and> (\<forall>i < nat n. val_loss (history (train L tr va p sch n) ! k)
                               \<le> val_loss (history (train L tr va p sch n) ! i))
           \<and> (\<forall>i < k. val_loss (history (train L tr va p sch n) ! k)
                           < val_loss (history (train L tr va p sch n) ! i)))"
  proof
    assume "0 < n"
    then have "0 < nat n" by simp
    with inv show "\<exists>k < nat n.
           checkpoint (train L tr va p sch n) = Some (params (train L tr va p sch (int (Suc k))))
           \<and> (\<forall>i < nat n. val_loss (history (train L tr va p sch n) ! k)
                               \<le> val_loss (history (train L tr va p sch n) ! i))
           \<and> (\<forall>i < k. val_loss (history (train L tr va p sch n) ! k)
                           < val_loss (history (train L tr va p sch n) ! i))"
      unfolding n [symmetric] by blast
  qed
  have 4: "\<forall>j < nat n.
         checkpoint (train L tr va p sch (int (Suc j))) =
           (if \<forall>i < j. val_loss (history (train L tr va p sch n) ! j)
                          < val_loss (history (train L tr va p sch n) ! i)
            then Some (params (train L tr va p sch (int (Suc j))))
            else checkpoint (train L tr va p sch (int j)))"
  proof (intro allI impI)
    fix j assume "j < nat n"
    from checkpoint_step [OF this, of L tr va p sch]
    show "checkpoint (train L tr va p sch (int (Suc j))) =
           (if \<forall>i < j. val_loss (history (train L tr va p sch n) ! j)
                          < val_loss (history (train L tr va p sch n) ! i)
            then Some (params (train L tr va p sch (int (Suc j))))
            else checkpoint (train L tr va p sch (int j)))"
      unfolding n [symmetric] .
  qed
  from 1 2 3 4 show ?thesis by blast
qed

lemma train_batches_sum:
  "train_batches L sch batches (p, rl, rc) =
     (case train_batches L sch batches (p, 0, 0) of
        (p', l, c) \<Rightarrow> (p', rl + l, rc + c))
   \<and> fst (snd (train_batches L sch batches (p, 0, 0))) =
       (\<Sum>(q, b) \<leftarrow> zip (params_before L sch p batches) batches. batch_loss L q b)"
proof (induction batches arbitrary: p rl rc)
  case Nil
  show ?case by simp
next
  case (Cons b bs)
  let ?p = "opt_step L sch p b"
  obtain p' l c where r: "train_batches L sch bs (?p, 0, 0) = (p', l, c)"
    by (cases "train_batches L sch bs (?p, 0, 0)") auto
  have 1: "train_batches L sch bs (?p, x, y) = (p', x + l, y + c)" for x y
    using Cons.IH [of ?p x y] r by simp
  have 2: "l = (\<Sum>(q, b) \<leftarrow> zip (params_before L sch ?p bs) bs. batch_loss L q b)"
    using Cons.IH [of ?p 0 0] r by simp
  show ?case by (simp add: 1 2)
qed

lemma train_phase_loss:
  "fst (snd (train_phase L sch p batches)) =
     (\<Sum>(q, b) \<leftarrow> zip (params_before L sch p batches) batches. batch_loss L q b)
       / real (length (concat batches))"
proof -
  obtain p' l c where r: "train_batches L sch batches (p, 0, 0) = (p', l, c)"
    by (cases "train_batches L sch batches (p, 0, 0)") auto
  with train_batches_sum [of L sch batches p 0 0]
  have "l = (\<Sum>(q, b) \<leftarrow> zip (params_before L sch p batches) batches. batch_loss L q b)"
    by simp
  with r show ?thesis by (simp add: train_phase_def dataset_size_def)
qed

text \<open>
  C6.  The loss function that \<open>main\<close> hands to \<open>train\<close> is
  \<open>CrossEntropyLoss(reduction='sum')\<close>.  The loss of a batch is the sum of the losses
  of its samples; the loss that train_phase reports for the epoch is the sum of the
  batch losses, each under the parameters current at that batch, divided by the size of
  the dataset; and this is the training loss the epoch appends to the history.
\<close>

theorem loss_summed_then_divided:
  fixes L :: "('p, 'x, 's) learner"
  shows "(\<forall>dls m lf opt s dev dir n.
      Call_train dls m lf opt s dev dir n \<in> set (actions (snd (main E a (start files)))) \<longrightarrow>
      lf = CrossEntropyLoss ReductionSum)
   \<and> batch_loss L p batch = (\<Sum>x \<leftarrow> batch. sample_loss L (forward L p x) (label_of L x))
   \<and> fst (snd (train_phase L sch p batches)) =
       (\<Sum>(q, b) \<leftarrow> zip (params_before L sch p batches) batches. batch_loss L q b)
         / real (length (concat batches))
   \<and> (concat batches \<noteq> [] \<longrightarrow>
        fst (snd (train_phase L sch p batches)) * real (length (concat batches)) =
          (\<Sum>(q, b) \<leftarrow> zip (params_before L sch p batches) batches.
             \<Sum>x \<leftarrow> b. sample_loss L (forward L q x) (label_of L x)))
   \<and> (\<exists>m. history (epoch L batches val_batches st) = history st @ [m] \<and>
          train_loss m = fst (snd (train_phase L (sched st) (params st) batches)))"
proof (intro conjI allI impI)
  fix dls m lf opt s dev dir n
  assume "Call_train dls m lf opt s dev dir n \<in> set (actions (snd (main E a (start files))))"
  from all_acts_mem [OF main_loss_acts this]
  show "lf = CrossEntropyLoss ReductionSum" by blast
next
  show "batch_loss L p batch = (\<Sum>x \<leftarrow> batch. sample_loss L (forward L p x) (label_of L x))"
    by (simp add: batch_loss_def)
next
  show "fst (snd (train_phase L sch p batches)) =
       (\<Sum>(q, b) \<leftarrow> zip (params_before L sch p batches) batches. batch_loss L q b)
         / real (length (concat batches))"
    by (rule train_phase_loss)
next
  assume "concat batches \<noteq> []"
  then have "real (length (concat batches)) \<noteq> 0" by simp
  then show "fst (snd (train_phase L sch p batches)) * real (length (concat batches)) =
          (\<Sum>(q, b) \<leftarrow> zip (params_before L sch p batches) batches.
             \<Sum>x \<leftarrow> b. sample_loss L (forward L q x) (label_of L x))"
    unfolding train_phase_loss batch_loss_def [abs_def] by simp
next
  obtain p' tl ta where t: "train_phase L (sched st) (params st) batches = (p', tl, ta)"
    by (cases "train_phase L (sched st) (params st) batches") auto
  obtain vl vacc where v: "val_phase L p' val_batches = (vl, vacc)"
    by (cases "val_phase L p' val_batches")
  show "\<exists>m. history (epoch L batches val_batches st) = history st @ [m] \<and>
          train_loss m = fst (snd (train_phase L (sched st) (params st) batches))"
    by (rule exI [of _ "\<lparr> train_loss = tl, val_loss = vl, train_acc = ta, val_acc = vacc \<rparr>"])
       (simp add: epoch_def Let_def t v)
qed

subsection \<open>Evaluation Engine\<close>







subsection \<open>The example learner\<close>

lemmas learner_defs =
  example_learner_def train_def epoch_def train_phase_def val_phase_def batch_loss_def
  batch_corrects_def dataset_size_def predicted_def argmax_def Let_def

lemma example_training:
  "checkpoint (train example_learner [[(0, 1)]] [[(0, 1)]] 0 () 3) = Some 2"
  "params (train example_learner [[(0, 1)]] [[(0, 1)]] 0 () 3) = 3"
  "map val_loss (history (train example_learner [[(0, 1)]] [[(0, 1)]] 0 () 3)) = [1, 0, 1]"
  "params (train example_learner [[(0, 1)]] [[(0, 1)]] 0 () (int (Suc 1))) = 2"
  by (simp_all add: learner_defs eval_nat_numeral)

theorem best_checkpoint_witness:
  "(0::int) < 3
   \<and> length (history (train example_learner [[(0, 1)]] [[(0, 1)]] 0 () 3)) = 3
   \<and> (\<exists>k < nat 3.
         checkpoint (train example_learner [[(0, 1)]] [[(0, 1)]] 0 () 3) =
           Some (params (train example_learner [[(0, 1)]] [[(0, 1)]] 0 () (int (Suc k)))))
   \<and> checkpoint (train example_learner [[(0, 1)]] [[(0, 1)]] 0 () 3) = Some 2
   \<and> map val_loss (history (train example_learner [[(0, 1)]] [[(0, 1)]] 0 () 3)) = [1, 0, 1]"
proof -
  note T = best_checkpoint [of example_learner "[[(0, 1)]]" "[[(0, 1)]]" 0 "()" 3]
  have pos: "(0::int) < 3" by simp
  from T have len: "length (history (train example_learner [[(0, 1)]] [[(0, 1)]] 0 () 3)) = nat 3"
    by blast
  from T pos have "\<exists>k < nat 3.
         checkpoint (train example_learner [[(0, 1)]] [[(0, 1)]] 0 () 3) =
           Some (params (train example_learner [[(0, 1)]] [[(0, 1)]] 0 () (int (Suc k))))"
    by blast
  with len pos example_training(1,3) show ?thesis by simp
qed

lemma example_train_phase:
  "train_phase example_learner () 0 [[(0, 1), (5, 0)], [(3, 1)]] = (2, 5 / 3, 1 / 3)"
  by (simp add: learner_defs)

theorem loss_summed_then_divided_witness:
  "Call_train
      (TrainValDloaders
         (VideoDataset [(''frames/Biking/v1'', 0)] 16 (TrTransforms (TransformStats ''lrcn'')))
         (VideoDataset [(''frames/Diving/v2'', 1)] 16 (ValTsTransforms (TransformStats ''lrcn'')))
         8 ''lrcn'')
      (LRCN 100 1 (1 / 10) 2 (PyBool True) ''resnet34'')
      (CrossEntropyLoss ReductionSum)
      (Adam (LRCN 100 1 (1 / 10) 2 (PyBool True) ''resnet34'') (3 / 100000))
      (ReduceLROnPlateau
         (Adam (LRCN 100 1 (1 / 10) 2 (PyBool True) ''resnet34'') (3 / 100000))
         ''min'' (1 / 2) 5 1)
      Cpu ''./models'' 30
     \<in> set (actions (snd (main example_env (example_args ''train'') (start Map.empty))))
   \<and> concat [[(0, 1), (5, 0)], [(3::int, 1::nat)]] \<noteq> []
   \<and> fst (snd (train_phase example_learner () 0 [[(0, 1), (5, 0)], [(3, 1)]])) * 3 = 5
   \<and> fst (snd (train_phase example_learner () 0 [[(0, 1), (5, 0)], [(3, 1)]])) = 5 / 3"
proof -
  let ?bs = "[[(0, 1), (5, 0)], [(3::int, 1::nat)]]"
  have ne: "concat ?bs \<noteq> []" by simp
  have run: "Call_train
      (TrainValDloaders
         (VideoDataset [(''frames/Biking/v1'', 0)] 16 (TrTransforms (TransformStats ''lrcn'')))
         (VideoDataset [(''frames/Diving/v2'', 1)] 16 (ValTsTransforms (TransformStats ''lrcn'')))
         8 ''lrcn'')
      (LRCN 100 1 (1 / 10) 2 (PyBool True) ''resnet34'')
      (CrossEntropyLoss ReductionSum)
      (Adam (LRCN 100 1 (1 / 10) 2 (PyBool True) ''resnet34'') (3 / 100000))
      (ReduceLROnPlateau
         (Adam (LRCN 100 1 (1 / 10) 2 (PyBool True) ''resnet34'') (3 / 100000))
         ''min'' (1 / 2) 5 1)
      Cpu ''./models'' 30
     \<in> set (actions (snd (main example_env (example_args ''train'') (start Map.empty))))"
    by (simp add: example_train_run)
  from loss_summed_then_divided [where L = example_learner and batches = ?bs
         and sch = "()" and p = 0] ne
  have "fst (snd (train_phase example_learner () 0 ?bs)) * real (length (concat ?bs)) =
          (\<Sum>(q, b) \<leftarrow> zip (params_before example_learner () 0 ?bs) ?bs.
             \<Sum>x \<leftarrow> b. sample_loss example_learner (forward example_learner q x)
                          (label_of example_learner x))"
    by blast
  also have "\<dots> = 5" by (simp add: example_learner_def)
  finally have "fst (snd (train_phase example_learner () 0 ?bs)) * 3 = 5" by simp
  with run ne example_train_phase show ?thesis by simp
qed



end
